theory Spec2Isabelle
  imports Main "HOL-Library.Word" "HOL-Library.Sublist"
begin

section \<open>JavaScript strings\<close>

text \<open>
  A JavaScript string is a sequence of UTF-16 code units. ASCII literals of the
  source are written with \<open>lit\<close>; the warning sign of \<^verbatim>\<open>useChat.ts\<close>, line 64,
  is U+26A0 followed by the variation selector U+FE0F.
\<close>

type_synonym jschar = "16 word"
type_synonym jsstring = "jschar list"

definition lit :: "string \<Rightarrow> jsstring" where
  "lit s = map of_char s"

text \<open>
  \<^verbatim>\<open>String.prototype.trim\<close> strips the code units that ECMAScript calls WhiteSpace
  or LineTerminator from both ends: TAB, LF, VT, FF, CR, SPACE, NBSP, U+1680,
  U+2000..U+200A, U+2028, U+2029, U+202F, U+205F, U+3000 and U+FEFF.
\<close>

definition isWhiteSpace :: "jschar \<Rightarrow> bool" where
  "isWhiteSpace c \<longleftrightarrow>
     c = 0x9 \<or> c = 0xA \<or> c = 0xB \<or> c = 0xC \<or> c = 0xD \<or> c = 0x20 \<or> c = 0xA0 \<or>
     c = 0x1680 \<or> (0x2000 \<le> c \<and> c \<le> 0x200A) \<or> c = 0x2028 \<or> c = 0x2029 \<or>
     c = 0x202F \<or> c = 0x205F \<or> c = 0x3000 \<or> c = 0xFEFF"

definition trim :: "jsstring \<Rightarrow> jsstring" where
  "trim s = rev (dropWhile isWhiteSpace (rev (dropWhile isWhiteSpace s)))"

text \<open>The empty string is the only falsy string: \<^verbatim>\<open>!content.trim()\<close>.\<close>

definition truthy :: "jsstring \<Rightarrow> bool" where
  "truthy s \<longleftrightarrow> s \<noteq> []"

text \<open>
  \<^verbatim>\<open>s.replace(pat, rep)\<close> with a string pattern replaces the first occurrence
  of \<open>pat\<close> only (\<^verbatim>\<open>ChatMessage.tsx\<close>, line 10, where \<open>rep\<close> is the empty
  string, so no \<^verbatim>\<open>$\<close> pattern of a replacement string is in play).
\<close>

fun replace :: "jsstring \<Rightarrow> jsstring \<Rightarrow> jsstring \<Rightarrow> jsstring" where
  "replace pat rep [] = (if pat = [] then rep else [])"
| "replace pat rep (c # cs) =
     (if take (length pat) (c # cs) = pat then rep @ drop (length pat) (c # cs)
      else c # replace pat rep cs)"

text \<open>The decimal digits of a number, as a template literal prints it.\<close>

definition digit :: "nat \<Rightarrow> jschar" where
  "digit d = of_nat (48 + d)"

function decimal :: "nat \<Rightarrow> jsstring" where
  "decimal n = (if n < 10 then [digit n] else decimal (n div 10) @ [digit (n mod 10)])"
  by pat_completeness auto
termination
  by (relation "measure (\<lambda>n. n)") auto

declare decimal.simps [simp del]

section \<open>The data of \<^verbatim>\<open>types/chat.ts\<close>\<close>

text \<open>\<^verbatim>\<open>Source\<close>: its field \<^verbatim>\<open>file\<close> is \<open>source_file\<close> here.\<close>

record Source =
  source_file :: jsstring
  row_index :: int

datatype Role = User | Assistant

text \<open>
  \<^verbatim>\<open>Message\<close>: the field \<^verbatim>\<open>id\<close> is \<open>msg_id\<close> here, and \<^verbatim>\<open>sources?\<close> is
  \<open>None\<close> when the property is absent. A \<^verbatim>\<open>Date\<close> is its number of milliseconds.
\<close>

record Message =
  msg_id :: jsstring
  role :: Role
  content :: jsstring
  msg_sources :: "Source list option"
  timestamp :: int

record ChatResponse =
  session_id :: jsstring
  answer :: jsstring
  sources :: "Source list"

text \<open>
  The values a property of the request object can hold, and the object given to
  \<^verbatim>\<open>JSON.stringify\<close> as its ordered list of properties. \<^verbatim>\<open>JSON.stringify\<close> writes
  \<^verbatim>\<open>null\<close> for a property that is \<^verbatim>\<open>null\<close>; it leaves a property out only when
  its value is \<^verbatim>\<open>undefined\<close>.
\<close>

datatype jsvalue = JNull | JString jsstring | JNumber int

type_synonym jsobject = "(string \<times> jsvalue) list"

fun is_string :: "jsvalue \<Rightarrow> bool" where
  "is_string (JString s) = True"
| "is_string v = False"

fun is_number :: "jsvalue \<Rightarrow> bool" where
  "is_number (JNumber n) = True"
| "is_number v = False"

text \<open>
  \<^verbatim>\<open>interface ChatRequest { session_id?: string; message: string; top_k?: number }\<close>:
  an optional property is absent or of its type, a required one is present.
\<close>

definition ChatRequest :: "jsobject \<Rightarrow> bool" where
  "ChatRequest obj \<longleftrightarrow>
     (case map_of obj ''session_id'' of None \<Rightarrow> True | Some v \<Rightarrow> is_string v) \<and>
     (case map_of obj ''message'' of None \<Rightarrow> False | Some v \<Rightarrow> is_string v) \<and>
     (case map_of obj ''top_k'' of None \<Rightarrow> True | Some v \<Rightarrow> is_number v) \<and>
     set (map fst obj) \<subseteq> {''session_id'', ''message'', ''top_k''}"

section \<open>The hook \<^verbatim>\<open>useChat\<close>\<close>

definition API_URL :: jsstring where
  "API_URL = lit ''http://localhost:8000''"

text \<open>The four \<^verbatim>\<open>useState\<close> cells of the hook, with their initial values.\<close>

record chat_state =
  messages :: "Message list"
  isLoading :: bool
  sessionId :: "jsstring option"
  error :: "jsstring option"

definition initial :: chat_state where
  "initial = \<lparr>messages = [], isLoading = False, sessionId = None, error = None\<rparr>"

text \<open>
  What \<^verbatim>\<open>crypto.randomUUID()\<close> and \<^verbatim>\<open>new Date()\<close> return when a message is
  built: inputs from the environment.
\<close>

record stamp =
  uuid :: jsstring
  now :: int

text \<open>The request of line 27; its \<^verbatim>\<open>method\<close> is \<open>http_method\<close> here.\<close>

record fetch_request =
  url :: jsstring
  http_method :: jsstring
  body :: jsobject

text \<open>
  A thrown value is an \<^verbatim>\<open>Error\<close> with its \<^verbatim>\<open>message\<close>, or anything else.
  \<^verbatim>\<open>fetch\<close> settles by rejecting or by resolving to a response, of which the
  code reads \<^verbatim>\<open>ok\<close>, \<^verbatim>\<open>status\<close> and \<^verbatim>\<open>json()\<close>; \<^verbatim>\<open>json()\<close> rejects on a body
  that does not parse, and its value is used at the type \<^verbatim>\<open>ChatResponse\<close>.
  \<open>JsonResolves d\<close> is a body that has the shape of a \<^verbatim>\<open>ChatResponse\<close> and reads as
  \<open>d\<close>. Line 43 does not check the shape: what lines 43 to 53 do with a body as it
  is parsed, of any shape, is \<open>consume\<close> below.
\<close>

datatype thrown = Error jsstring | NonError

datatype json_result = JsonRejects thrown | JsonResolves ChatResponse

record response =
  ok :: bool
  status :: nat
  json :: json_result

datatype fetch_outcome = FetchRejects thrown | FetchResolves response

datatype 'a settled = Fulfilled 'a | Rejected thrown

text \<open>
  Lines 13 to 37: the guard, the user message, the three setters and the request.
  \<open>captured\<close> is the \<^verbatim>\<open>sessionId\<close> the callback closes over:
  \<^verbatim>\<open>useCallback(..., [sessionId])\<close> rebuilds the callback whenever \<^verbatim>\<open>sessionId\<close>
  changes, so the callback of a render closes over the \<^verbatim>\<open>sessionId\<close> rendered.
  \<open>topK\<close> is \<open>None\<close> when the caller passes no second argument, and the parameter
  default is 5; \<open>input\<close> is the parameter \<^verbatim>\<open>content\<close>. The result is the new
  state and the request, if one is sent.
\<close>

definition sendMessage_start ::
  "jsstring option \<Rightarrow> stamp \<Rightarrow> jsstring \<Rightarrow> int option \<Rightarrow> chat_state \<Rightarrow>
   chat_state \<times> fetch_request option" where
  "sendMessage_start captured s input topK st =
     (if \<not> truthy (trim input) then (st, None)
      else
        let topK' = (case topK of None \<Rightarrow> 5 | Some k \<Rightarrow> k);
            userMessage = \<lparr>msg_id = uuid s, role = User, content = trim input,
                           msg_sources = None, timestamp = now s\<rparr>;
            st1 = st\<lparr>messages := messages st @ [userMessage]\<rparr>;
            st2 = st1\<lparr>isLoading := True\<rparr>;
            st3 = st2\<lparr>error := None\<rparr>
        in (st3,
            Some \<lparr>url = API_URL @ lit ''/chat'', http_method = lit ''POST'',
                  body = [(''session_id'',
                             (case captured of None \<Rightarrow> JNull | Some i \<Rightarrow> JString i)),
                          (''message'', JString (trim input)),
                          (''top_k'', JNumber topK')]\<rparr>))"

text \<open>
  Lines 39 to 55, the rest of the \<^verbatim>\<open>try\<close> block once \<^verbatim>\<open>fetch\<close> has settled:
  \<open>Inl\<close> is a throw. No setter runs before the last statement that can throw.
\<close>

definition try_block :: "stamp \<Rightarrow> fetch_outcome \<Rightarrow> chat_state \<Rightarrow> thrown + chat_state" where
  "try_block s out st =
     (case out of
        FetchRejects e \<Rightarrow> Inl e
      | FetchResolves r \<Rightarrow>
          if \<not> ok r then Inl (Error (lit ''Server error: '' @ decimal (status r)))
          else (case json r of
                  JsonRejects e \<Rightarrow> Inl e
                | JsonResolves data \<Rightarrow>
                    let st1 = st\<lparr>sessionId := Some (session_id data)\<rparr>;
                        assistantMessage = \<lparr>msg_id = uuid s, role = Assistant,
                                            content = answer data,
                                            msg_sources = Some (sources data),
                                            timestamp = now s\<rparr>
                    in Inr (st1\<lparr>messages := messages st1 @ [assistantMessage]\<rparr>)))"

definition warning_marker :: jsstring where
  "warning_marker = [0x26A0, 0xFE0F]"

text \<open>Lines 56 to 67, the \<^verbatim>\<open>catch\<close> block.\<close>

definition catch_block :: "stamp \<Rightarrow> thrown \<Rightarrow> chat_state \<Rightarrow> chat_state" where
  "catch_block s err st =
     (let errorMessage = (case err of Error m \<Rightarrow> m | NonError \<Rightarrow> lit ''Failed to send message'');
          st1 = st\<lparr>error := Some errorMessage\<rparr>;
          errorResponse = \<lparr>msg_id = uuid s, role = Assistant,
                           content = warning_marker @ lit '' '' @ errorMessage @
                                     lit ''. Make sure the backend is running at '' @ API_URL,
                           msg_sources = None, timestamp = now s\<rparr>
      in st1\<lparr>messages := messages st1 @ [errorResponse]\<rparr>)"

text \<open>Lines 68 to 70, the \<^verbatim>\<open>finally\<close> block.\<close>

definition finally_block :: "chat_state \<Rightarrow> chat_state" where
  "finally_block st = st\<lparr>isLoading := False\<rparr>"

text \<open>
  The continuation of \<^verbatim>\<open>sendMessage\<close> after the \<^verbatim>\<open>await\<close> of line 27: the
  setters are functional updates, so they act on the state current at that time.
\<close>

definition sendMessage_settle :: "stamp \<Rightarrow> fetch_outcome \<Rightarrow> chat_state \<Rightarrow> chat_state settled" where
  "sendMessage_settle s out st =
     (case try_block s out st of
        Inr st' \<Rightarrow> Fulfilled (finally_block st')
      | Inl err \<Rightarrow> Fulfilled (finally_block (catch_block s err st)))"

text \<open>
  A whole call with nothing else running in between. \<open>net\<close> is the network: the
  outcome of the request. \<open>s1\<close> stamps the user message, \<open>s2\<close> the reply.
\<close>

definition sendMessage ::
  "jsstring option \<Rightarrow> stamp \<Rightarrow> stamp \<Rightarrow> (fetch_request \<Rightarrow> fetch_outcome) \<Rightarrow>
   jsstring \<Rightarrow> int option \<Rightarrow> chat_state \<Rightarrow> chat_state settled" where
  "sendMessage captured s1 s2 net input topK st =
     (case sendMessage_start captured s1 input topK st of
        (st', None) \<Rightarrow> Fulfilled st'
      | (st', Some req) \<Rightarrow> sendMessage_settle s2 (net req) st')"

text \<open>Lines 73 to 77.\<close>

definition clearChat :: "chat_state \<Rightarrow> chat_state" where
  "clearChat st = st\<lparr>messages := [], sessionId := None, error := None\<rparr>"

section \<open>The response body as it is parsed\<close>

text \<open>
  A parsed JSON value, as \<^verbatim>\<open>response.json()\<close> resolves to it; an object is the list
  of its properties. Numbers are integers here.
\<close>

datatype jsdata =
  DNull | DBool bool | DNumber int | DString jsstring | DArray "jsdata list"
  | DObject "(string \<times> jsdata) list"

text \<open>
  Reading one of the properties the hook reads (\<^verbatim>\<open>session_id\<close>, \<^verbatim>\<open>answer\<close>,
  \<^verbatim>\<open>sources\<close>): on \<^verbatim>\<open>null\<close> it throws a \<^verbatim>\<open>TypeError\<close>, whose message is the
  engine's; an object has the property or not (\<open>None\<close> is \<^verbatim>\<open>undefined\<close>); no other
  JSON value has it.
\<close>

fun property :: "jsdata \<Rightarrow> string \<Rightarrow> thrown + jsdata option" where
  "property DNull p = Inl (Error (lit ''Cannot read properties of null''))"
| "property (DObject ps) p = Inr (map_of ps p)"
| "property v p = Inr None"

text \<open>The assistant message of lines 47 to 53, with the fields as they are read.\<close>

record raw_message =
  raw_id :: jsstring
  raw_role :: Role
  raw_content :: "jsdata option"
  raw_sources :: "jsdata option"
  raw_timestamp :: int

text \<open>
  Lines 43 to 55 on the parsed body, whatever its shape: the argument given to
  \<^verbatim>\<open>setSessionId\<close> and the message given to \<^verbatim>\<open>setMessages\<close>, or a throw (\<open>Inl\<close>),
  which happens at line 45 before any setter has run.
\<close>

definition consume :: "stamp \<Rightarrow> jsdata \<Rightarrow> thrown + jsdata option \<times> raw_message" where
  "consume s data =
     (case property data ''session_id'' of
        Inl e \<Rightarrow> Inl e
      | Inr sid \<Rightarrow>
          (case property data ''answer'' of
             Inl e \<Rightarrow> Inl e
           | Inr a \<Rightarrow>
               (case property data ''sources'' of
                  Inl e \<Rightarrow> Inl e
                | Inr srcs \<Rightarrow>
                    Inr (sid, \<lparr>raw_id = uuid s, raw_role = Assistant, raw_content = a,
                               raw_sources = srcs, raw_timestamp = now s\<rparr>))))"

text \<open>
  The shapes that \<^verbatim>\<open>types/chat.ts\<close> declares, read off a parsed value: \<^verbatim>\<open>Source\<close>
  and \<^verbatim>\<open>ChatResponse\<close>. \<open>None\<close> when the value has not the shape.
\<close>

fun string_value :: "jsdata option \<Rightarrow> jsstring option" where
  "string_value (Some (DString x)) = Some x"
| "string_value v = None"

fun number_value :: "jsdata option \<Rightarrow> int option" where
  "number_value (Some (DNumber n)) = Some n"
| "number_value v = None"

fun array_value :: "jsdata option \<Rightarrow> jsdata list option" where
  "array_value (Some (DArray xs)) = Some xs"
| "array_value v = None"

fun as_Source :: "jsdata \<Rightarrow> Source option" where
  "as_Source (DObject ps) =
     (case string_value (map_of ps ''file'') of
        None \<Rightarrow> None
      | Some f \<Rightarrow>
          (case number_value (map_of ps ''row_index'') of
             None \<Rightarrow> None
           | Some n \<Rightarrow> Some \<lparr>source_file = f, row_index = n\<rparr>))"
| "as_Source v = None"

fun as_Sources :: "jsdata list \<Rightarrow> Source list option" where
  "as_Sources [] = Some []"
| "as_Sources (x # xs) =
     (case as_Source x of
        None \<Rightarrow> None
      | Some a \<Rightarrow> (case as_Sources xs of None \<Rightarrow> None | Some rest \<Rightarrow> Some (a # rest)))"

fun as_ChatResponse :: "jsdata \<Rightarrow> ChatResponse option" where
  "as_ChatResponse (DObject ps) =
     (case string_value (map_of ps ''session_id'') of
        None \<Rightarrow> None
      | Some i \<Rightarrow>
          (case string_value (map_of ps ''answer'') of
             None \<Rightarrow> None
           | Some a \<Rightarrow>
               (case array_value (map_of ps ''sources'') of
                  None \<Rightarrow> None
                | Some xs \<Rightarrow>
                    (case as_Sources xs of
                       None \<Rightarrow> None
                     | Some srcs \<Rightarrow> Some \<lparr>session_id = i, answer = a, sources = srcs\<rparr>))))"
| "as_ChatResponse v = None"

section \<open>The components \<^verbatim>\<open>ChatInput\<close> and \<^verbatim>\<open>ChatMessage\<close>\<close>

text \<open>
  \<^verbatim>\<open>handleSubmit\<close> of \<^verbatim>\<open>ChatInput\<close>: the argument \<^verbatim>\<open>onSend\<close> is called with, if it
  is called, and the new content of the text area.
\<close>

definition handleSubmit :: "jsstring \<Rightarrow> bool \<Rightarrow> jsstring option \<times> jsstring" where
  "handleSubmit input loading =
     (if truthy (trim input) \<and> \<not> loading then (Some input, []) else (None, input))"

text \<open>
  What a \<^verbatim>\<open>SourceBadge\<close> puts on the screen: the name in its first span, the
  colour choice, and the number after the word \<^verbatim>\<open>row\<close>.
\<close>

record badge =
  fileName :: jsstring
  isHoldings :: bool
  row :: int

definition SourceBadge :: "Source \<Rightarrow> badge" where
  "SourceBadge source =
     (let name = replace (lit ''.csv'') [] (source_file source)
      in \<lparr>fileName = name, isHoldings = (name = lit ''holdings''), row = row_index source\<rparr>)"

text \<open>
  The sources section of \<^verbatim>\<open>ChatMessage\<close>, lines 59 to 68: rendered only for a
  non-empty \<^verbatim>\<open>sources\<close>, one badge per source, by \<^verbatim>\<open>Array.prototype.map\<close>.
\<close>

definition ChatMessage_sources :: "Message \<Rightarrow> badge list option" where
  "ChatMessage_sources message =
     (case msg_sources message of
        None \<Rightarrow> None
      | Some srcs \<Rightarrow> if length srcs > 0 then Some (map SourceBadge srcs) else None)"

section \<open>The backend: configuration and session store\<close>

text \<open>The configuration table of the backend's README: the defaults.\<close>

definition TOP_K :: int where
  "TOP_K = 5"

definition MAX_HISTORY :: nat where
  "MAX_HISTORY = 10"

text \<open>
  Modelled from the spec: the Turn of section 3. The backend (\<^verbatim>\<open>app/main.py\<close>,
  \<^verbatim>\<open>app/rag.py\<close>, \<^verbatim>\<open>app/schemas.py\<close>) is not among the sources; the session store and
  the request handler below follow sections 2, 4.6, 6 and 7 of the specification.
\<close>

record Turn =
  turn_role :: Role
  turn_content :: jsstring
  turn_sources :: "Source list option"

type_synonym session_store = "(jsstring \<times> Turn list) list"

text \<open>
  Modelled from the spec: the allocation of "a new unique id" (section 4.6), which
  section 8 requires to be non-empty. The specification fixes no more than that;
  this one is longer than every id in use.
\<close>

definition fresh_id :: "jsstring list \<Rightarrow> jsstring" where
  "fresh_id ids = replicate (Suc (sum_list (map length ids))) (of_char CHR ''s'')"

definition allocate :: "session_store \<Rightarrow> jsstring \<times> session_store" where
  "allocate store = (let i = fresh_id (map fst store) in (i, store @ [(i, [])]))"

text \<open>
  Modelled from the spec: \<^verbatim>\<open>get_or_create(session_id?) -> (session_id, Session)\<close>,
  "if \<^verbatim>\<open>session_id\<close> is absent or unknown, allocate a new unique id and empty
  Session" (section 4.6). The session is read from the store returned.
\<close>

definition get_or_create :: "session_store \<Rightarrow> jsstring option \<Rightarrow> jsstring \<times> session_store" where
  "get_or_create store sid =
     (case sid of
        None \<Rightarrow> allocate store
      | Some i \<Rightarrow> if i \<in> set (map fst store) then (i, store) else allocate store)"

definition history :: "session_store \<Rightarrow> jsstring \<Rightarrow> Turn list" where
  "history store i = (case map_of store i of None \<Rightarrow> [] | Some h \<Rightarrow> h)"

text \<open>
  Modelled from the spec: \<^verbatim>\<open>append(session_id, turn)\<close> "adds a turn and evicts the
  oldest turn(s) once \<^verbatim>\<open>history\<close> length exceeds \<^verbatim>\<open>MAX_HISTORY\<close> (strict FIFO
  eviction, the cap counts total turns, not turn pairs)" (section 4.6). The history
  is most-recent-last, so the oldest turns are at the front.
\<close>

definition append_history :: "nat \<Rightarrow> Turn list \<Rightarrow> Turn \<Rightarrow> Turn list" where
  "append_history cap h t = (let h' = h @ [t] in drop (length h' - cap) h')"

definition append_turn :: "nat \<Rightarrow> session_store \<Rightarrow> jsstring \<Rightarrow> Turn \<Rightarrow> session_store" where
  "append_turn cap store i t =
     map (\<lambda>(k, h). if k = i then (k, append_history cap h t) else (k, h)) store"

text \<open>
  Modelled from the spec: the handling of one inbound request (sections 2 and 6).
  The session id is read from the body (anything but a string is no id), a missing
  \<^verbatim>\<open>message\<close> is the malformed request of section 7 (\<open>None\<close>), \<^verbatim>\<open>top_k\<close> defaults to
  the configured value. \<open>pipeline\<close> stands for router, retrieval, aggregation and
  composer: from the prior turns, the question and \<^verbatim>\<open>top_k\<close> to answer and sources.
  The user turn and the assistant turn are then appended to the session.
\<close>

definition chat ::
  "nat \<Rightarrow> (Turn list \<Rightarrow> jsstring \<Rightarrow> int \<Rightarrow> jsstring \<times> Source list) \<Rightarrow>
   session_store \<Rightarrow> jsobject \<Rightarrow> (session_store \<times> ChatResponse) option" where
  "chat cap pipeline store obj =
     (case map_of obj ''message'' of
        Some (JString m) \<Rightarrow>
          let sid = (case map_of obj ''session_id'' of Some (JString i) \<Rightarrow> Some i | _ \<Rightarrow> None);
              k = (case map_of obj ''top_k'' of Some (JNumber n) \<Rightarrow> n | _ \<Rightarrow> TOP_K);
              (i, store1) = get_or_create store sid;
              (a, srcs) = pipeline (history store1 i) m k;
              store2 = append_turn cap store1 i
                         \<lparr>turn_role = User, turn_content = m, turn_sources = None\<rparr>;
              store3 = append_turn cap store2 i
                         \<lparr>turn_role = Assistant, turn_content = a, turn_sources = Some srcs\<rparr>
          in Some (store3, \<lparr>session_id = i, answer = a, sources = srcs\<rparr>)
      | _ \<Rightarrow> None)"

section \<open>Client and backend together\<close>

text \<open>
  What happens to a request: the backend handles it and the response arrives; it
  never reaches the backend (\<^verbatim>\<open>fetch\<close> rejects); the transport answers with a
  status that is not ok; or the backend handles it and the response is lost.
\<close>

datatype delivery = Delivered | Lost thrown | Refused nat | Dropped thrown

datatype event = Send stamp stamp jsstring "int option" delivery

definition deliver ::
  "nat \<Rightarrow> (Turn list \<Rightarrow> jsstring \<Rightarrow> int \<Rightarrow> jsstring \<times> Source list) \<Rightarrow>
   session_store \<Rightarrow> fetch_request \<Rightarrow> delivery \<Rightarrow> session_store \<times> fetch_outcome" where
  "deliver cap pipeline store req d =
     (case d of
        Lost e \<Rightarrow> (store, FetchRejects e)
      | Refused n \<Rightarrow> (store, FetchResolves \<lparr>ok = False, status = n, json = JsonRejects NonError\<rparr>)
      | Delivered \<Rightarrow>
          (case chat cap pipeline store (body req) of
             None \<Rightarrow> (store, FetchResolves \<lparr>ok = False, status = 422, json = JsonRejects NonError\<rparr>)
           | Some (store', r) \<Rightarrow>
               (store', FetchResolves \<lparr>ok = True, status = 200, json = JsonResolves r\<rparr>))
      | Dropped e \<Rightarrow>
          (case chat cap pipeline store (body req) of
             None \<Rightarrow> (store, FetchRejects e)
           | Some (store', r) \<Rightarrow> (store', FetchRejects e)))"

text \<open>
  One call of the callback of the current render, run to its end against the
  backend: the new store, the new state and the request sent, if any.
\<close>

definition exchange ::
  "nat \<Rightarrow> (Turn list \<Rightarrow> jsstring \<Rightarrow> int \<Rightarrow> jsstring \<times> Source list) \<Rightarrow>
   session_store \<times> chat_state \<Rightarrow> event \<Rightarrow> session_store \<times> chat_state \<times> fetch_request option" where
  "exchange cap pipeline cfg ev =
     (case (cfg, ev) of
        ((store, st), Send s1 s2 input topK d) \<Rightarrow>
          (case sendMessage_start (sessionId st) s1 input topK st of
             (st1, None) \<Rightarrow> (store, st1, None)
           | (st1, Some req) \<Rightarrow>
               let (store', out) = deliver cap pipeline store req d
               in (case sendMessage_settle s2 out st1 of
                     Fulfilled st2 \<Rightarrow> (store', st2, Some req)
                   | Rejected e \<Rightarrow> (store', st1, Some req))))"

fun run ::
  "nat \<Rightarrow> (Turn list \<Rightarrow> jsstring \<Rightarrow> int \<Rightarrow> jsstring \<times> Source list) \<Rightarrow>
   session_store \<times> chat_state \<Rightarrow> event list \<Rightarrow>
   (session_store \<times> chat_state) \<times> fetch_request list" where
  "run cap pipeline cfg [] = (cfg, [])"
| "run cap pipeline cfg (ev # evs) =
     (case exchange cap pipeline cfg ev of
        (store', st', r) \<Rightarrow>
          (case run cap pipeline (store', st') evs of
             (cfg'', rs) \<Rightarrow> (cfg'', (case r of None \<Rightarrow> [] | Some q \<Rightarrow> [q]) @ rs)))"

section \<open>Vocabulary of the properties\<close>

text \<open>
  The two failures of the request that the \<^verbatim>\<open>try\<close> block can meet before it
  parses anything: \<^verbatim>\<open>fetch\<close> rejects (line 27), or the response is not ok (line 39).
\<close>

definition transport_fails :: "fetch_outcome \<Rightarrow> bool" where
  "transport_fails out = (case out of FetchRejects e \<Rightarrow> True | FetchResolves r \<Rightarrow> \<not> ok r)"

text \<open>The data that line 43 binds, when the \<^verbatim>\<open>try\<close> block gets that far.\<close>

fun parsed :: "fetch_outcome \<Rightarrow> ChatResponse option" where
  "parsed (FetchRejects e) = None"
| "parsed (FetchResolves r) =
     (if ok r then (case json r of JsonRejects e \<Rightarrow> None | JsonResolves d \<Rightarrow> Some d) else None)"

section \<open>Values for the examples\<close>

definition stamp1 :: stamp where
  "stamp1 = \<lparr>uuid = lit ''u1'', now = 0\<rparr>"

definition stamp2 :: stamp where
  "stamp2 = \<lparr>uuid = lit ''u2'', now = 1\<rparr>"

text \<open>
  A backend that is down, one that answers every request with the status 500, and
  one that answers every request with \<open>reply\<close>.
\<close>

definition unreachable :: "fetch_request \<Rightarrow> fetch_outcome" where
  "unreachable req = FetchRejects (Error (lit ''Failed to fetch''))"


definition reply :: ChatResponse where
  "reply = \<lparr>session_id = lit ''s'', answer = lit ''ok'',
            sources = [\<lparr>source_file = lit ''holdings.csv'', row_index = 2\<rparr>,
                       \<lparr>source_file = lit ''trades.csv'', row_index = 0\<rparr>]\<rparr>"

definition response_ok :: response where
  "response_ok = \<lparr>ok = True, status = 200, json = JsonResolves reply\<rparr>"

definition reachable :: "fetch_request \<Rightarrow> fetch_outcome" where
  "reachable req = FetchResolves response_ok"

text \<open>The state and the request after \<^verbatim>\<open>sendMessage("hi")\<close> has started in a fresh hook.\<close>

definition started_hi :: chat_state where
  "started_hi = \<lparr>messages = [\<lparr>msg_id = lit ''u1'', role = User, content = lit ''hi'',
                               msg_sources = None, timestamp = 0\<rparr>],
                  isLoading = True, sessionId = None, error = None\<rparr>"

definition request_hi :: fetch_request where
  "request_hi = \<lparr>url = lit ''http://localhost:8000/chat'', http_method = lit ''POST'',
                  body = [(''session_id'', JNull), (''message'', JString (lit ''hi'')),
                          (''top_k'', JNumber 5)]\<rparr>"

text \<open>A hook that holds the session \<^verbatim>\<open>s\<close>, and a store that knows it.\<close>

definition in_session :: chat_state where
  "in_session = \<lparr>messages = [], isLoading = False, sessionId = Some (lit ''s''), error = None\<rparr>"

definition store_s :: session_store where
  "store_s = [(lit ''s'', [])]"

definition stub_pipeline :: "Turn list \<Rightarrow> jsstring \<Rightarrow> int \<Rightarrow> jsstring \<times> Source list" where
  "stub_pipeline h m k = (lit ''ok'', [\<lparr>source_file = lit ''holdings.csv'', row_index = 0\<rparr>])"

text \<open>What the backend with \<open>stub_pipeline\<close> answers in the session \<open>i\<close>.\<close>

definition stub_reply :: "jsstring \<Rightarrow> ChatResponse" where
  "stub_reply i = \<lparr>session_id = i, answer = lit ''ok'',
                   sources = [\<lparr>source_file = lit ''holdings.csv'', row_index = 0\<rparr>]\<rparr>"

text \<open>
  A second call, \<^verbatim>\<open>sendMessage("yo")\<close>, made through a callback that closed over
  \<^verbatim>\<open>null\<close>: its request, and the stores of a backend that has handled
  \<open>request_hi\<close>, and then \<open>request_yo\<close> as well.
\<close>

definition request_yo :: fetch_request where
  "request_yo = \<lparr>url = lit ''http://localhost:8000/chat'', http_method = lit ''POST'',
                  body = [(''session_id'', JNull), (''message'', JString (lit ''yo'')),
                          (''top_k'', JNumber 5)]\<rparr>"

definition store_hi :: session_store where
  "store_hi =
     [(lit ''s'',
       [\<lparr>turn_role = User, turn_content = lit ''hi'', turn_sources = None\<rparr>,
        \<lparr>turn_role = Assistant, turn_content = lit ''ok'',
         turn_sources = Some [\<lparr>source_file = lit ''holdings.csv'', row_index = 0\<rparr>]\<rparr>])]"

definition store_hi_yo :: session_store where
  "store_hi_yo =
     store_hi @
     [(lit ''ss'',
       [\<lparr>turn_role = User, turn_content = lit ''yo'', turn_sources = None\<rparr>,
        \<lparr>turn_role = Assistant, turn_content = lit ''ok'',
         turn_sources = Some [\<lparr>source_file = lit ''holdings.csv'', row_index = 0\<rparr>]\<rparr>])]"

text \<open>
  A hook in the session \<^verbatim>\<open>s\<close> with \<^verbatim>\<open>sendMessage("hi")\<close> in flight; the state
  once \<^verbatim>\<open>clearChat\<close> has run and the response of that request has then arrived; and
  the request of the next call, \<^verbatim>\<open>sendMessage("yo")\<close>, with the store after it.
\<close>

definition pending_s :: chat_state where
  "pending_s = \<lparr>messages = [\<lparr>msg_id = lit ''u1'', role = User, content = lit ''hi'',
                              msg_sources = None, timestamp = 0\<rparr>],
                 isLoading = True, sessionId = Some (lit ''s''), error = None\<rparr>"

definition request_hi_s :: fetch_request where
  "request_hi_s = \<lparr>url = lit ''http://localhost:8000/chat'', http_method = lit ''POST'',
                    body = [(''session_id'', JString (lit ''s'')),
                            (''message'', JString (lit ''hi'')), (''top_k'', JNumber 5)]\<rparr>"

definition restored_s :: chat_state where
  "restored_s = \<lparr>messages = [\<lparr>msg_id = lit ''u2'', role = Assistant, content = lit ''ok'',
                               msg_sources = Some (sources reply), timestamp = 1\<rparr>],
                  isLoading = False, sessionId = Some (lit ''s''), error = None\<rparr>"

definition request_yo_s :: fetch_request where
  "request_yo_s = \<lparr>url = lit ''http://localhost:8000/chat'', http_method = lit ''POST'',
                    body = [(''session_id'', JString (lit ''s'')),
                            (''message'', JString (lit ''yo'')), (''top_k'', JNumber 5)]\<rparr>"

definition store_s_yo :: session_store where
  "store_s_yo =
     [(lit ''s'',
       [\<lparr>turn_role = User, turn_content = lit ''yo'', turn_sources = None\<rparr>,
        \<lparr>turn_role = Assistant, turn_content = lit ''ok'',
         turn_sources = Some [\<lparr>source_file = lit ''holdings.csv'', row_index = 0\<rparr>]\<rparr>])]"

text \<open>A body that parses and is ok, but has only an \<^verbatim>\<open>answer\<close>; and one with the shape.\<close>

definition answer_only :: jsdata where
  "answer_only = DObject [(''answer'', DString (lit ''x''))]"

definition reply_data :: jsdata where
  "reply_data =
     DObject [(''session_id'', DString (lit ''s'')), (''answer'', DString (lit ''ok'')),
              (''sources'',
               DArray [DObject [(''file'', DString (lit ''holdings.csv'')), (''row_index'', DNumber 2)],
                       DObject [(''file'', DString (lit ''trades.csv'')), (''row_index'', DNumber 0)]])]"

text \<open>Four calls: delivered, blank, refused by the transport, delivered.\<close>

definition events_demo :: "event list" where
  "events_demo =
     [Send stamp1 stamp2 (lit ''hi'') None Delivered,
      Send stamp1 stamp2 (lit ''  '') None Delivered,
      Send stamp1 stamp2 (lit ''yo'') None (Refused 500),
      Send stamp1 stamp2 (lit ''yo'') (Some 3) Delivered]"

definition turn_a :: Turn where
  "turn_a = \<lparr>turn_role = User, turn_content = lit ''a'', turn_sources = None\<rparr>"

definition turn_b :: Turn where
  "turn_b = \<lparr>turn_role = Assistant, turn_content = lit ''b'', turn_sources = Some []\<rparr>"

section \<open>Facts about the string functions\<close>

lemma trim_Nil_iff: "trim s = [] \<longleftrightarrow> list_all isWhiteSpace s"
proof
  assume "trim s = []"
  then have a: "\<forall>c \<in> set (dropWhile isWhiteSpace s). isWhiteSpace c"
    by (simp add: trim_def)
  have "dropWhile isWhiteSpace s = []"
  proof (rule ccontr)
    assume n: "dropWhile isWhiteSpace s \<noteq> []"
    then have "\<not> isWhiteSpace (hd (dropWhile isWhiteSpace s))" by (rule hd_dropWhile)
    moreover have "hd (dropWhile isWhiteSpace s) \<in> set (dropWhile isWhiteSpace s)"
      using n by simp
    ultimately show False using a by blast
  qed
  then show "list_all isWhiteSpace s" by (simp add: list_all_iff)
next
  assume "list_all isWhiteSpace s"
  then have d: "dropWhile isWhiteSpace s = []" by (simp add: list_all_iff)
  show "trim s = []" unfolding trim_def d by simp
qed

lemma trim_hi: "trim (lit ''hi'') = lit ''hi''"
  by (simp add: trim_def lit_def isWhiteSpace_def)

lemma trim_padded_hi: "trim (lit '' hi '') = lit ''hi''"
  by (simp add: trim_def lit_def isWhiteSpace_def)

lemma trim_spaces: "trim (lit ''  '') = []"
  by (simp add: trim_def lit_def isWhiteSpace_def)

lemma replace_cut:
  "(\<exists>a b. s = a @ pat @ b \<and> replace pat rep s = a @ rep @ b) \<or> replace pat rep s = s"
proof (induction s)
  case Nil
  then show ?case by simp
next
  case (Cons c cs)
  show ?case
  proof (cases "take (length pat) (c # cs) = pat")
    case True
    then have "c # cs = [] @ pat @ drop (length pat) (c # cs)"
      by (metis append_Nil append_take_drop_id)
    moreover from True have "replace pat rep (c # cs) = [] @ rep @ drop (length pat) (c # cs)"
      by simp
    ultimately show ?thesis by blast
  next
    case False
    from Cons.IH show ?thesis
    proof
      assume "\<exists>a b. cs = a @ pat @ b \<and> replace pat rep cs = a @ rep @ b"
      then obtain a b where "cs = a @ pat @ b" "replace pat rep cs = a @ rep @ b" by blast
      with False have "c # cs = (c # a) @ pat @ b \<and> replace pat rep (c # cs) = (c # a) @ rep @ b"
        by simp
      then show ?thesis by blast
    next
      assume "replace pat rep cs = cs"
      with False show ?thesis by simp
    qed
  qed
qed

section \<open>Facts about the parsed body\<close>

lemma string_value_Some: "string_value v = Some x \<Longrightarrow> v = Some (DString x)"
  by (cases v rule: string_value.cases) auto

lemma array_value_Some: "array_value v = Some xs \<Longrightarrow> v = Some (DArray xs)"
  by (cases v rule: array_value.cases) auto

lemma consume_typed:
  assumes "as_ChatResponse data = Some d"
  shows "\<exists>xs. consume s data =
            Inr (Some (DString (session_id d)),
                 \<lparr>raw_id = uuid s, raw_role = Assistant, raw_content = Some (DString (answer d)),
                  raw_sources = Some (DArray xs), raw_timestamp = now s\<rparr>) \<and>
          as_Sources xs = Some (sources d)"
proof (cases data)
  case (DObject ps)
  with assms obtain i a xs srcs where
    v: "string_value (map_of ps ''session_id'') = Some i"
       "string_value (map_of ps ''answer'') = Some a"
       "array_value (map_of ps ''sources'') = Some xs"
    and r: "as_Sources xs = Some srcs" "d = \<lparr>session_id = i, answer = a, sources = srcs\<rparr>"
    by (auto split: option.splits)
  have "map_of ps ''session_id'' = Some (DString i)" "map_of ps ''answer'' = Some (DString a)"
    "map_of ps ''sources'' = Some (DArray xs)"
    using v by (simp_all add: string_value_Some array_value_Some)
  with r DObject show ?thesis by (simp add: consume_def)
qed (use assms in auto)

lemma reply_data_shape: "as_ChatResponse reply_data = Some reply"
  by (simp add: reply_data_def reply_def)

section \<open>Facts about \<^verbatim>\<open>sendMessage\<close>\<close>

lemma start_blank:
  "trim input = [] \<Longrightarrow> sendMessage_start cap s input topK st = (st, None)"
  by (simp add: sendMessage_start_def truthy_def)

lemma start_nonblank:
  "trim input \<noteq> [] \<Longrightarrow>
   sendMessage_start cap s input topK st =
     (st\<lparr>messages := messages st @ [\<lparr>msg_id = uuid s, role = User, content = trim input,
                                       msg_sources = None, timestamp = now s\<rparr>],
         isLoading := True, error := None\<rparr>,
      Some \<lparr>url = API_URL @ lit ''/chat'', http_method = lit ''POST'',
            body = [(''session_id'', (case cap of None \<Rightarrow> JNull | Some i \<Rightarrow> JString i)),
                    (''message'', JString (trim input)),
                    (''top_k'', JNumber (case topK of None \<Rightarrow> 5 | Some k \<Rightarrow> k))]\<rparr>)"
  by (simp add: sendMessage_start_def truthy_def Let_def)

lemma start_hi: "sendMessage_start None stamp1 (lit ''hi'') None initial = (started_hi, Some request_hi)"
  by (simp add: sendMessage_start_def Let_def truthy_def trim_def isWhiteSpace_def lit_def
      initial_def started_hi_def request_hi_def stamp1_def API_URL_def)

lemma sendMessage_after_start:
  "sendMessage_start cap sa input topK st = (stx, Some req) \<Longrightarrow>
   sendMessage cap sa sb net input topK st = sendMessage_settle sb (net req) stx"
  by (simp add: sendMessage_def)

lemma start_sessionId:
  "sendMessage_start cap sa input topK st = (stx, r) \<Longrightarrow> sessionId stx = sessionId st"
  by (auto simp: sendMessage_start_def Let_def split: if_splits)

lemma try_block_throws:
  "transport_fails out \<Longrightarrow>
   try_block s out st =
     Inl (case out of FetchRejects e \<Rightarrow> e
          | FetchResolves r \<Rightarrow> Error (lit ''Server error: '' @ decimal (status r)))"
  by (auto simp: transport_fails_def try_block_def split: fetch_outcome.splits)

lemma try_block_unparsed: "parsed out = None \<Longrightarrow> \<exists>e. try_block s out st = Inl e"
  by (cases out) (auto simp: try_block_def split: json_result.splits if_splits)

lemma settle_failure:
  "transport_fails out \<Longrightarrow>
   sendMessage_settle s out st =
     Fulfilled (finally_block (catch_block s
       (case out of FetchRejects e \<Rightarrow> e
        | FetchResolves r \<Rightarrow> Error (lit ''Server error: '' @ decimal (status r))) st))"
  by (simp add: sendMessage_settle_def try_block_throws)

lemma settle_success:
  "ok r \<Longrightarrow> json r = JsonResolves d \<Longrightarrow>
   sendMessage_settle s (FetchResolves r) st =
     Fulfilled (st\<lparr>sessionId := Some (session_id d),
                  messages := messages st @
                    [\<lparr>msg_id = uuid s, role = Assistant, content = answer d,
                      msg_sources = Some (sources d), timestamp = now s\<rparr>],
                  isLoading := False\<rparr>)"
  by (simp add: sendMessage_settle_def try_block_def finally_block_def Let_def)


lemma catch_block_sessionId: "sessionId (finally_block (catch_block s e st)) = sessionId st"
  by (simp add: finally_block_def catch_block_def Let_def)

lemma catch_block_isLoading: "isLoading (finally_block (catch_block s e st)) = False"
  by (simp add: finally_block_def)

lemma catch_block_messages:
  "messages (finally_block (catch_block s e st)) = messages st @
     [\<lparr>msg_id = uuid s, role = Assistant,
       content = warning_marker @ lit '' '' @
                 (case e of Error m \<Rightarrow> m | NonError \<Rightarrow> lit ''Failed to send message'') @
                 lit ''. Make sure the backend is running at '' @ API_URL,
       msg_sources = None, timestamp = now s\<rparr>]"
  by (simp add: finally_block_def catch_block_def Let_def)


lemma settle_parsed:
  "\<exists>st'. sendMessage_settle s out st = Fulfilled st' \<and> isLoading st' = False \<and>
         sessionId st' = (case parsed out of None \<Rightarrow> sessionId st | Some d \<Rightarrow> Some (session_id d))"
proof (cases "parsed out")
  case None
  from try_block_unparsed [OF None] obtain e where "try_block s out st = Inl e" by blast
  with None show ?thesis
    by (simp add: sendMessage_settle_def catch_block_sessionId catch_block_isLoading)
next
  case (Some d)
  then obtain r where "out = FetchResolves r" "ok r" "json r = JsonResolves d"
    by (cases out) (auto split: if_splits json_result.splits)
  with Some show ?thesis by (simp add: settle_success)
qed

lemma settle_appends_one:
  "\<exists>st' m. sendMessage_settle s out st = Fulfilled st' \<and> messages st' = messages st @ [m] \<and>
          role m = Assistant"
proof (cases "parsed out")
  case None
  from try_block_unparsed [OF None] obtain e where "try_block s out st = Inl e" by blast
  then show ?thesis by (simp add: sendMessage_settle_def catch_block_messages)
next
  case (Some d)
  then obtain r where "out = FetchResolves r" "ok r" "json r = JsonResolves d"
    by (cases out) (auto split: if_splits json_result.splits)
  then show ?thesis by (simp add: settle_success)
qed

section \<open>The client: guard, request and error path\<close>

text \<open>
  C9. For an input that is empty or consists of whitespace only, \<^verbatim>\<open>sendMessage\<close>
  does nothing: it sends no request and returns the state as it was (messages,
  session id, loading flag and error), and \<^verbatim>\<open>handleSubmit\<close> does not even call it.
  For any other input, the user turn that is appended and the message that is
  sent are the trimmed input.
\<close>

theorem blank_input_noop:
  "(list_all isWhiteSpace input \<longrightarrow>
      sendMessage_start cap sa input topK st = (st, None) \<and>
      sendMessage cap sa sb net input topK st = Fulfilled st \<and>
      fst (handleSubmit input loading) = None) \<and>
   (\<not> list_all isWhiteSpace input \<longrightarrow>
      (\<exists>st' req m. sendMessage_start cap sa input topK st = (st', Some req) \<and>
         messages st' = messages st @ [m] \<and> role m = User \<and> content m = trim input \<and>
         map_of (body req) ''message'' = Some (JString (trim input))))"
proof (intro conjI impI)
  assume "list_all isWhiteSpace input"
  then have t: "trim input = []" by (simp add: trim_Nil_iff)
  then show "sendMessage_start cap sa input topK st = (st, None)" by (rule start_blank)
  then show "sendMessage cap sa sb net input topK st = Fulfilled st" by (simp add: sendMessage_def)
  show "fst (handleSubmit input loading) = None" by (simp add: handleSubmit_def truthy_def t)
next
  assume "\<not> list_all isWhiteSpace input"
  then have t: "trim input \<noteq> []" by (simp add: trim_Nil_iff)
  show "\<exists>st' req m. sendMessage_start cap sa input topK st = (st', Some req) \<and>
         messages st' = messages st @ [m] \<and> role m = User \<and> content m = trim input \<and>
         map_of (body req) ''message'' = Some (JString (trim input))"
    unfolding start_nonblank [OF t] by simp
qed

theorem blank_input_noop_witness:
  "list_all isWhiteSpace (lit ''  '') \<and>
   sendMessage_start None stamp1 (lit ''  '') None in_session = (in_session, None) \<and>
   sendMessage None stamp1 stamp2 reachable (lit ''  '') None in_session = Fulfilled in_session \<and>
   fst (handleSubmit (lit ''  '') False) = None \<and>
   \<not> list_all isWhiteSpace (lit '' hi '') \<and>
   (\<exists>st' req m. sendMessage_start None stamp1 (lit '' hi '') None in_session = (st', Some req) \<and>
      messages st' = messages in_session @ [m] \<and> role m = User \<and> content m = lit ''hi'' \<and>
      map_of (body req) ''message'' = Some (JString (lit ''hi'')))"
proof -
  have a: "list_all isWhiteSpace (lit ''  '')" by (simp add: lit_def isWhiteSpace_def)
  have b: "\<not> list_all isWhiteSpace (lit '' hi '')" by (simp add: lit_def isWhiteSpace_def)
  from a b
    blank_input_noop [where input = "lit ''  ''" and cap = None and sa = stamp1 and sb = stamp2
      and topK = None and st = in_session and net = reachable and loading = False]
    blank_input_noop [where input = "lit '' hi ''" and cap = None and sa = stamp1 and sb = stamp2
      and topK = None and st = in_session and net = reachable and loading = False]
  show ?thesis unfolding trim_padded_hi by blast
qed

text \<open>
  C10. When a call of \<^verbatim>\<open>sendMessage\<close> fails (\<^verbatim>\<open>fetch\<close> rejects, or the status is
  not ok), the stored session id is what it was before the call. The session id
  after a call is the \<^verbatim>\<open>session_id\<close> of the response that was parsed, if one was,
  and the old one otherwise; and every call that sent a request ends with
  \<^verbatim>\<open>isLoading\<close> false, whether it succeeded or failed.
\<close>

theorem failure_keeps_sessionId:
  "(sendMessage_start cap sa input topK st = (stx, Some req) \<and> transport_fails (net req) \<longrightarrow>
      (\<exists>st'. sendMessage cap sa sb net input topK st = Fulfilled st' \<and>
         sessionId st' = sessionId st \<and> isLoading st' = False)) \<and>
   (sendMessage_start cap sa input topK st = (stx, Some req) \<longrightarrow>
      (\<exists>st'. sendMessage cap sa sb net input topK st = Fulfilled st' \<and>
         isLoading st' = False \<and>
         sessionId st' =
           (case parsed (net req) of None \<Rightarrow> sessionId st | Some d \<Rightarrow> Some (session_id d))))"
proof (intro conjI impI)
  assume a: "sendMessage_start cap sa input topK st = (stx, Some req) \<and> transport_fails (net req)"
  then have "sendMessage cap sa sb net input topK st =
      Fulfilled (finally_block (catch_block sb
        (case net req of FetchRejects e \<Rightarrow> e
         | FetchResolves r \<Rightarrow> Error (lit ''Server error: '' @ decimal (status r))) stx))"
    by (simp add: sendMessage_after_start settle_failure)
  moreover from a start_sessionId have "sessionId stx = sessionId st" by blast
  ultimately show "\<exists>st'. sendMessage cap sa sb net input topK st = Fulfilled st' \<and>
         sessionId st' = sessionId st \<and> isLoading st' = False"
    by (simp add: catch_block_sessionId catch_block_isLoading)
next
  assume a: "sendMessage_start cap sa input topK st = (stx, Some req)"
  then have e: "sessionId stx = sessionId st" by (rule start_sessionId)
  show "\<exists>st'. sendMessage cap sa sb net input topK st = Fulfilled st' \<and>
         isLoading st' = False \<and>
         sessionId st' =
           (case parsed (net req) of None \<Rightarrow> sessionId st | Some d \<Rightarrow> Some (session_id d))"
    unfolding sendMessage_after_start [OF a] e [symmetric] by (rule settle_parsed)
qed

theorem failure_keeps_sessionId_witness:
  "sendMessage_start None stamp1 (lit ''hi'') None initial = (started_hi, Some request_hi) \<and>
   transport_fails (unreachable request_hi) \<and>
   (\<exists>st'. sendMessage None stamp1 stamp2 unreachable (lit ''hi'') None initial = Fulfilled st' \<and>
      sessionId st' = sessionId initial \<and> isLoading st' = False) \<and>
   (\<exists>st'. sendMessage None stamp1 stamp2 reachable (lit ''hi'') None initial = Fulfilled st' \<and>
      isLoading st' = False \<and> sessionId st' = Some (lit ''s''))"
proof -
  have f: "transport_fails (unreachable request_hi)"
    by (simp add: transport_fails_def unreachable_def)
  have p: "parsed (reachable request_hi) = Some reply"
    by (simp add: reachable_def response_ok_def)
  have r: "session_id reply = lit ''s''" by (simp add: reply_def)
  from start_hi f
    failure_keeps_sessionId [where cap = None and sa = stamp1 and sb = stamp2 and topK = None
      and input = "lit ''hi''" and st = initial and stx = started_hi and req = request_hi
      and net = unreachable]
    failure_keeps_sessionId [where cap = None and sa = stamp1 and sb = stamp2 and topK = None
      and input = "lit ''hi''" and st = initial and stx = started_hi and req = request_hi
      and net = reachable]
  show ?thesis unfolding p option.case r by blast
qed



text \<open>
  C4. When the caller of \<^verbatim>\<open>sendMessage\<close> passes no \<^verbatim>\<open>topK\<close>, the request that is
  sent carries \<^verbatim>\<open>top_k\<close> 5, which is the default \<^verbatim>\<open>TOP_K\<close> of the backend's
  configuration table.
\<close>

theorem default_top_k:
  "sendMessage_start cap s input None st = (st', Some req) \<Longrightarrow>
   map_of (body req) ''top_k'' = Some (JNumber 5) \<and> TOP_K = 5"
  by (auto simp: sendMessage_start_def Let_def TOP_K_def split: if_splits)

theorem default_top_k_witness:
  "sendMessage_start None stamp1 (lit ''hi'') None initial = (started_hi, Some request_hi) \<and>
   map_of (body request_hi) ''top_k'' = Some (JNumber 5) \<and> TOP_K = 5"
  using start_hi default_top_k [OF start_hi] by simp

text \<open>With a session id in hand the request is a \<^verbatim>\<open>ChatRequest\<close>.\<close>

lemma request_in_session_conforms:
  "sendMessage_start (Some i) s input topK st = (st', Some req) \<Longrightarrow> ChatRequest (body req)"
  by (auto simp: sendMessage_start_def Let_def ChatRequest_def split: if_splits)

text \<open>
  C3. The request of the first call in a fresh hook: its body has the property
  \<^verbatim>\<open>session_id\<close> with the value \<^verbatim>\<open>null\<close>, next to the trimmed message and the
  number 5, and so it is not a \<^verbatim>\<open>ChatRequest\<close>, whose \<^verbatim>\<open>session_id\<close> is absent or
  a string.
\<close>

theorem first_request_session_id_null:
  "map_option body (snd (sendMessage_start (sessionId initial) stamp1 (lit ''hi'') None initial)) =
     Some [(''session_id'', JNull), (''message'', JString (lit ''hi'')), (''top_k'', JNumber 5)] \<and>
   \<not> ChatRequest [(''session_id'', JNull), (''message'', JString (lit ''hi'')),
                   (''top_k'', JNumber 5)]"
  by (simp add: sendMessage_start_def Let_def truthy_def trim_def lit_def isWhiteSpace_def
      initial_def ChatRequest_def)

section \<open>The client: the message list\<close>

text \<open>
  C6, as the claim has it, fails: a call of \<^verbatim>\<open>sendMessage\<close> with a blank input
  completes and appends no turn at all.
\<close>

theorem blank_call_appends_nothing:
  "sendMessage None stamp1 stamp2 unreachable (lit '' '') None initial = Fulfilled initial \<and>
   messages initial = []"
  by (simp add: sendMessage_def sendMessage_start_def truthy_def trim_def lit_def
      isWhiteSpace_def initial_def)

text \<open>
  C6, amended. The message list is most-recent-last and append-only. A completed
  call of \<^verbatim>\<open>sendMessage\<close> whose trimmed input is not empty appends exactly one
  user turn, with the trimmed input, followed by exactly one assistant turn, on
  success and on error alike; a call with a blank input leaves the state as it
  was. Each of the two halves of a call, taken alone, keeps the list it finds and
  appends at its end: the first at most the user turn, the second exactly one
  assistant turn. Only \<^verbatim>\<open>clearChat\<close> removes turns.
\<close>

theorem messages_append_only:
  "(trim input \<noteq> [] \<longrightarrow>
      (\<exists>st' u a. sendMessage cap sa sb net input topK st = Fulfilled st' \<and>
         messages st' = messages st @ [u, a] \<and>
         role u = User \<and> content u = trim input \<and> role a = Assistant)) \<and>
   (trim input = [] \<longrightarrow> sendMessage cap sa sb net input topK st = Fulfilled st) \<and>
   (\<exists>stx r. sendMessage_start cap sa input topK st = (stx, r) \<and>
      prefix (messages st) (messages stx) \<and> length (messages stx) \<le> Suc (length (messages st))) \<and>
   (\<exists>st' a. sendMessage_settle sb out st = Fulfilled st' \<and> messages st' = messages st @ [a] \<and>
      role a = Assistant)"
proof (intro conjI impI)
  assume t: "trim input \<noteq> []"
  obtain stx req where
    start: "sendMessage_start cap sa input topK st = (stx, Some req)"
    and m: "messages stx = messages st @ [\<lparr>msg_id = uuid sa, role = User, content = trim input,
                                           msg_sources = None, timestamp = now sa\<rparr>]"
    by (simp add: start_nonblank [OF t])
  obtain st' a where
    "sendMessage_settle sb (net req) stx = Fulfilled st'"
    "messages st' = messages stx @ [a]" "role a = Assistant"
    using settle_appends_one by blast
  then show "\<exists>st' u a. sendMessage cap sa sb net input topK st = Fulfilled st' \<and>
         messages st' = messages st @ [u, a] \<and>
         role u = User \<and> content u = trim input \<and> role a = Assistant"
    by (simp add: sendMessage_after_start [OF start] m)
next
  assume "trim input = []"
  then show "sendMessage cap sa sb net input topK st = Fulfilled st"
    by (simp add: sendMessage_def start_blank)
next
  show "\<exists>stx r. sendMessage_start cap sa input topK st = (stx, r) \<and>
      prefix (messages st) (messages stx) \<and> length (messages stx) \<le> Suc (length (messages st))"
    by (cases "trim input = []") (simp_all add: start_blank start_nonblank)
next
  show "\<exists>st' a. sendMessage_settle sb out st = Fulfilled st' \<and> messages st' = messages st @ [a] \<and>
      role a = Assistant"
    by (rule settle_appends_one)
qed

theorem messages_append_only_witness:
  "trim (lit ''hi'') \<noteq> [] \<and>
   (\<exists>st' u a. sendMessage None stamp1 stamp2 unreachable (lit ''hi'') None initial = Fulfilled st' \<and>
      messages st' = messages initial @ [u, a] \<and>
      role u = User \<and> content u = trim (lit ''hi'') \<and> role a = Assistant) \<and>
   trim (lit ''  '') = [] \<and>
   sendMessage None stamp1 stamp2 unreachable (lit ''  '') None initial = Fulfilled initial"
proof -
  have a: "trim (lit ''hi'') \<noteq> []" unfolding trim_hi by (simp add: lit_def)
  from a trim_spaces
    messages_append_only [where input = "lit ''hi''" and cap = None and sa = stamp1
      and sb = stamp2 and net = unreachable and topK = None and st = initial]
    messages_append_only [where input = "lit ''  ''" and cap = None and sa = stamp1
      and sb = stamp2 and net = unreachable and topK = None and st = initial]
  show ?thesis by blast
qed

section \<open>The client: rendering the sources\<close>

text \<open>
  C5, as the claim has it, fails twice. A response that is ok and whose body parses
  is consumed whatever its shape: of a body that has only an \<^verbatim>\<open>answer\<close>, which is no
  \<^verbatim>\<open>ChatResponse\<close>, \<^verbatim>\<open>undefined\<close> goes to \<^verbatim>\<open>setSessionId\<close> and a message with that
  answer and no sources is appended. And the citation of a source of the file
  \<^verbatim>\<open>holdings.csv\<close> shows \<^verbatim>\<open>holdings\<close>, not the file of the source.
\<close>

theorem unchecked_body_and_stripped_csv:
  "as_ChatResponse answer_only = None \<and>
   consume stamp2 answer_only =
     Inr (None, \<lparr>raw_id = lit ''u2'', raw_role = Assistant,
                 raw_content = Some (DString (lit ''x'')), raw_sources = None,
                 raw_timestamp = 1\<rparr>) \<and>
   fileName (SourceBadge \<lparr>source_file = lit ''holdings.csv'', row_index = 2\<rparr>) = lit ''holdings'' \<and>
   fileName (SourceBadge \<lparr>source_file = lit ''holdings.csv'', row_index = 2\<rparr>) \<noteq>
     source_file \<lparr>source_file = lit ''holdings.csv'', row_index = 2\<rparr>"
  by (simp add: answer_only_def consume_def stamp2_def SourceBadge_def Let_def)
     (simp add: lit_def)

text \<open>
  C5, amended. The client does not check the shape of a successful response. When
  the body has the shape of a \<^verbatim>\<open>ChatResponse\<close> (a session id and an answer that are
  strings, and a list of sources, each with a file that is a string and a row index
  that is an integer), the client consumes it field by field: the session id is
  stored, the answer becomes the content of the assistant message that is appended,
  and the sources go with that message, in their order; what the typed continuation
  stores is what the body holds. The sources are rendered in
  the order given, one citation per source (none when the list is empty); each
  citation shows the row index of its source and the file of its source with the
  first \<^verbatim>\<open>.csv\<close> in it removed: the file itself, or the file with one \<^verbatim>\<open>.csv\<close> cut
  out of it.
\<close>

theorem sources_rendered_in_order:
  "(as_ChatResponse data = Some d \<longrightarrow>
      (\<exists>xs. consume s data =
          Inr (Some (DString (session_id d)),
               \<lparr>raw_id = uuid s, raw_role = Assistant, raw_content = Some (DString (answer d)),
                raw_sources = Some (DArray xs), raw_timestamp = now s\<rparr>) \<and>
        as_Sources xs = Some (sources d))) \<and>
   (ok r \<and> json r = JsonResolves d \<longrightarrow>
      (\<exists>st' m. sendMessage_settle s (FetchResolves r) st = Fulfilled st' \<and>
         sessionId st' = Some (session_id d) \<and>
         messages st' = messages st @ [m] \<and> role m = Assistant \<and> content m = answer d \<and>
         ChatMessage_sources m =
           (if sources d = [] then None else Some (map SourceBadge (sources d))))) \<and>
   (as_ChatResponse data = Some d \<and> ok r \<and> json r = JsonResolves d \<longrightarrow>
      (\<exists>sid raw xs st' m.
         consume s data = Inr (sid, raw) \<and>
         sendMessage_settle s (FetchResolves r) st = Fulfilled st' \<and>
         messages st' = messages st @ [m] \<and>
         sessionId st' = string_value sid \<and>
         msg_id m = raw_id raw \<and> role m = raw_role raw \<and>
         Some (content m) = string_value (raw_content raw) \<and>
         raw_sources raw = Some (DArray xs) \<and> msg_sources m = as_Sources xs \<and>
         timestamp m = raw_timestamp raw)) \<and>
   fileName (SourceBadge src) = replace (lit ''.csv'') [] (source_file src) \<and>
   ((\<exists>a b. source_file src = a @ lit ''.csv'' @ b \<and> fileName (SourceBadge src) = a @ b) \<or>
    fileName (SourceBadge src) = source_file src) \<and>
   row (SourceBadge src) = row_index src"
proof (intro conjI impI)
  show "\<exists>xs. consume s data =
          Inr (Some (DString (session_id d)),
               \<lparr>raw_id = uuid s, raw_role = Assistant, raw_content = Some (DString (answer d)),
                raw_sources = Some (DArray xs), raw_timestamp = now s\<rparr>) \<and>
        as_Sources xs = Some (sources d)"
    if "as_ChatResponse data = Some d"
    using that by (rule consume_typed)
  show "\<exists>st' m. sendMessage_settle s (FetchResolves r) st = Fulfilled st' \<and>
         sessionId st' = Some (session_id d) \<and>
         messages st' = messages st @ [m] \<and> role m = Assistant \<and> content m = answer d \<and>
         ChatMessage_sources m =
           (if sources d = [] then None else Some (map SourceBadge (sources d)))"
    if "ok r \<and> json r = JsonResolves d"
    using that by (simp add: settle_success ChatMessage_sources_def)
  show "\<exists>sid raw xs st' m.
         consume s data = Inr (sid, raw) \<and>
         sendMessage_settle s (FetchResolves r) st = Fulfilled st' \<and>
         messages st' = messages st @ [m] \<and>
         sessionId st' = string_value sid \<and>
         msg_id m = raw_id raw \<and> role m = raw_role raw \<and>
         Some (content m) = string_value (raw_content raw) \<and>
         raw_sources raw = Some (DArray xs) \<and> msg_sources m = as_Sources xs \<and>
         timestamp m = raw_timestamp raw"
    if h: "as_ChatResponse data = Some d \<and> ok r \<and> json r = JsonResolves d"
  proof -
    from h consume_typed [of data d s] obtain xs where
      c: "consume s data =
            Inr (Some (DString (session_id d)),
                 \<lparr>raw_id = uuid s, raw_role = Assistant, raw_content = Some (DString (answer d)),
                  raw_sources = Some (DArray xs), raw_timestamp = now s\<rparr>)"
      and x: "as_Sources xs = Some (sources d)" by blast
    from h have t: "sendMessage_settle s (FetchResolves r) st =
        Fulfilled (st\<lparr>sessionId := Some (session_id d),
          messages := messages st @
            [\<lparr>msg_id = uuid s, role = Assistant, content = answer d,
              msg_sources = Some (sources d), timestamp = now s\<rparr>],
          isLoading := False\<rparr>)"
      by (simp add: settle_success)
    show ?thesis
      unfolding c t
      by (rule exI [of _ "Some (DString (session_id d))"],
          rule exI [of _ "\<lparr>raw_id = uuid s, raw_role = Assistant,
            raw_content = Some (DString (answer d)), raw_sources = Some (DArray xs),
            raw_timestamp = now s\<rparr>"],
          rule exI [of _ xs],
          rule exI [of _ "st\<lparr>sessionId := Some (session_id d),
            messages := messages st @
              [\<lparr>msg_id = uuid s, role = Assistant, content = answer d,
                msg_sources = Some (sources d), timestamp = now s\<rparr>],
            isLoading := False\<rparr>"],
          rule exI [of _ "\<lparr>msg_id = uuid s, role = Assistant, content = answer d,
            msg_sources = Some (sources d), timestamp = now s\<rparr>"])
         (simp add: x)
  qed
  show n: "fileName (SourceBadge src) = replace (lit ''.csv'') [] (source_file src)"
    by (simp add: SourceBadge_def Let_def)
  show "(\<exists>a b. source_file src = a @ lit ''.csv'' @ b \<and> fileName (SourceBadge src) = a @ b) \<or>
    fileName (SourceBadge src) = source_file src"
    unfolding n using replace_cut [of "source_file src" "lit ''.csv''" "[]"] by simp
  show "row (SourceBadge src) = row_index src"
    by (simp add: SourceBadge_def Let_def)
qed

theorem sources_rendered_in_order_witness:
  "as_ChatResponse reply_data = Some reply \<and>
   (\<exists>xs. consume stamp2 reply_data =
       Inr (Some (DString (session_id reply)),
            \<lparr>raw_id = uuid stamp2, raw_role = Assistant,
             raw_content = Some (DString (answer reply)),
             raw_sources = Some (DArray xs), raw_timestamp = now stamp2\<rparr>) \<and>
     as_Sources xs = Some (sources reply)) \<and>
   ok response_ok \<and> json response_ok = JsonResolves reply \<and>
   (\<exists>st' m. sendMessage_settle stamp2 (FetchResolves response_ok) started_hi = Fulfilled st' \<and>
      sessionId st' = Some (lit ''s'') \<and>
      messages st' = messages started_hi @ [m] \<and> role m = Assistant \<and> content m = lit ''ok'' \<and>
      ChatMessage_sources m =
        Some [\<lparr>fileName = lit ''holdings'', isHoldings = True, row = 2\<rparr>,
              \<lparr>fileName = lit ''trades'', isHoldings = False, row = 0\<rparr>]) \<and>
   (\<exists>sid raw xs st' m.
      consume stamp2 reply_data = Inr (sid, raw) \<and>
      sendMessage_settle stamp2 (FetchResolves response_ok) started_hi = Fulfilled st' \<and>
      messages st' = messages started_hi @ [m] \<and>
      sessionId st' = string_value sid \<and>
      msg_id m = raw_id raw \<and> role m = raw_role raw \<and>
      Some (content m) = string_value (raw_content raw) \<and>
      raw_sources raw = Some (DArray xs) \<and> msg_sources m = as_Sources xs \<and>
      timestamp m = raw_timestamp raw)"
proof -
  have h: "ok response_ok \<and> json response_ok = JsonResolves reply"
    by (simp add: response_ok_def)
  have a: "answer reply = lit ''ok''" "session_id reply = lit ''s''" by (simp_all add: reply_def)
  have b: "(if sources reply = [] then None else Some (map SourceBadge (sources reply))) =
        Some [\<lparr>fileName = lit ''holdings'', isHoldings = True, row = 2\<rparr>,
              \<lparr>fileName = lit ''trades'', isHoldings = False, row = 0\<rparr>]"
    by (simp add: reply_def SourceBadge_def Let_def lit_def)
  note raw = sources_rendered_in_order [where data = reply_data and d = reply and s = stamp2,
      THEN conjunct1, THEN mp, OF reply_data_shape]
  note typed = sources_rendered_in_order [where r = response_ok and d = reply and s = stamp2
      and st = started_hi, THEN conjunct2, THEN conjunct1, THEN mp, OF h]
  from typed have typed':
    "\<exists>st' m. sendMessage_settle stamp2 (FetchResolves response_ok) started_hi = Fulfilled st' \<and>
      sessionId st' = Some (lit ''s'') \<and>
      messages st' = messages started_hi @ [m] \<and> role m = Assistant \<and> content m = lit ''ok'' \<and>
      ChatMessage_sources m =
        Some [\<lparr>fileName = lit ''holdings'', isHoldings = True, row = 2\<rparr>,
              \<lparr>fileName = lit ''trades'', isHoldings = False, row = 0\<rparr>]"
    unfolding a b .
  note agree = sources_rendered_in_order [where data = reply_data and r = response_ok
      and d = reply and s = stamp2 and st = started_hi, THEN conjunct2, THEN conjunct2,
      THEN conjunct1, THEN mp, OF conjI [OF reply_data_shape h]]
  show ?thesis
    by (intro conjI reply_data_shape raw typed' agree h [THEN conjunct1] h [THEN conjunct2])
qed

section \<open>Facts about the session store\<close>

lemma fresh_id_notin: "fresh_id ids \<notin> set ids"
proof
  assume "fresh_id ids \<in> set ids"
  then have "length (fresh_id ids) \<in> set (map length ids)" by simp
  then have "length (fresh_id ids) \<le> sum_list (map length ids)"
    by (simp add: member_le_sum_list)
  then show False by (simp add: fresh_id_def)
qed

lemma fresh_id_nonempty: "fresh_id ids \<noteq> []"
  by (simp add: fresh_id_def)

lemma allocate_new:
  "allocate store = (fresh_id (map fst store), store @ [(fresh_id (map fst store), [])])"
  by (simp add: allocate_def Let_def)

lemma get_or_create_known:
  "i \<in> set (map fst store) \<Longrightarrow> get_or_create store (Some i) = (i, store)"
  by (simp add: get_or_create_def)

lemma get_or_create_absent: "get_or_create store None = allocate store"
  by (simp add: get_or_create_def)

lemma append_turn_keys: "map fst (append_turn cap store i t) = map fst store"
  by (induction store) (auto simp: append_turn_def)

lemma map_of_append_turn:
  "map_of (append_turn cap store i t) k =
     (if k = i then map_option (\<lambda>h. append_history cap h t) (map_of store i) else map_of store k)"
  by (induction store) (auto simp: append_turn_def)

lemma history_append_turn:
  assumes "i \<in> set (map fst store)"
  shows "history (append_turn cap store i t) k =
     (if k = i then append_history cap (history store i) t else history store k)"
proof -
  from assms obtain h where "map_of store i = Some h"
    by (metis map_of_eq_None_iff not_Some_eq set_map)
  then show ?thesis by (simp add: history_def map_of_append_turn)
qed

lemma append_turn_bounded:
  "list_all (\<lambda>kh. length (snd kh) \<le> cap) store \<Longrightarrow>
   list_all (\<lambda>kh. length (snd kh) \<le> cap) (append_turn cap store i t)"
  by (induction store) (auto simp: append_turn_def append_history_def Let_def)

lemma append_history_eq: "append_history cap h t = drop (Suc (length h) - cap) (h @ [t])"
  by (simp add: append_history_def Let_def)

lemma length_append_history: "length (append_history cap h t) \<le> cap"
  by (simp add: append_history_eq)

lemma foldl_append_history:
  "length h \<le> cap \<Longrightarrow>
   foldl (append_history cap) h ts = drop (length h + length ts - cap) (h @ ts)"
proof (induction ts arbitrary: h)
  case Nil
  then show ?case by simp
next
  case (Cons t ts)
  let ?h' = "append_history cap h t"
  have IH: "foldl (append_history cap) ?h' ts = drop (length ?h' + length ts - cap) (?h' @ ts)"
    by (rule Cons.IH) (rule length_append_history)
  show ?case
  proof (cases "length h < cap")
    case True
    then have "?h' = h @ [t]" by (simp add: append_history_eq)
    with IH show ?thesis by simp
  next
    case False
    with Cons.prems have e: "length h = cap" by simp
    then have h': "?h' = drop 1 (h @ [t])" by (simp add: append_history_eq)
    have a: "?h' @ ts = drop 1 (h @ t # ts)" unfolding h' by (cases h) simp_all
    have l: "length ?h' = cap" unfolding h' using e by simp
    have "foldl (append_history cap) h (t # ts) = drop (length ts) (drop 1 (h @ t # ts))"
      using IH unfolding a l by simp
    also have "\<dots> = drop (Suc (length ts)) (h @ t # ts)"
      by (simp only: drop_drop) simp
    also have "Suc (length ts) = length h + length (t # ts) - cap"
      using e by simp
    finally show ?thesis .
  qed
qed

lemma chat_known:
  assumes "map_of obj ''message'' = Some (JString m)"
    and "map_of obj ''session_id'' = Some (JString i)"
    and "i \<in> set (map fst store)"
  shows "\<exists>store' a srcs. chat cap pipeline store obj =
             Some (store', \<lparr>session_id = i, answer = a, sources = srcs\<rparr>) \<and>
           map fst store' = map fst store \<and>
           history store' i = append_history cap (append_history cap (history store i)
               \<lparr>turn_role = User, turn_content = m, turn_sources = None\<rparr>)
               \<lparr>turn_role = Assistant, turn_content = a, turn_sources = Some srcs\<rparr>"
proof -
  obtain a srcs where p: "pipeline (history store i) m
      (case map_of obj ''top_k'' of Some (JNumber n) \<Rightarrow> n | _ \<Rightarrow> TOP_K) = (a, srcs)"
    by (cases "pipeline (history store i) m
      (case map_of obj ''top_k'' of Some (JNumber n) \<Rightarrow> n | _ \<Rightarrow> TOP_K)")
  have k: "i \<in> set (map fst (append_turn cap store i t))" for t
    using assms(3) by (simp only: append_turn_keys)
  show ?thesis
    using assms p
    by (simp add: chat_def Let_def get_or_create_known append_turn_keys history_append_turn k
        del: set_map)
qed

lemma chat_absent:
  assumes "map_of obj ''message'' = Some (JString m)"
    and "map_of obj ''session_id'' = Some JNull"
  shows "\<exists>store' a srcs. chat cap pipeline store obj =
            Some (store', \<lparr>session_id = fresh_id (map fst store), answer = a, sources = srcs\<rparr>) \<and>
           map fst store' = map fst store @ [fresh_id (map fst store)]"
proof -
  let ?i = "fresh_id (map fst store)"
  obtain a srcs where p: "pipeline (history (store @ [(?i, [])]) ?i) m
      (case map_of obj ''top_k'' of Some (JNumber n) \<Rightarrow> n | _ \<Rightarrow> TOP_K) = (a, srcs)"
    by (cases "pipeline (history (store @ [(?i, [])]) ?i) m
      (case map_of obj ''top_k'' of Some (JNumber n) \<Rightarrow> n | _ \<Rightarrow> TOP_K)")
  show ?thesis
    using assms p
    by (simp add: chat_def Let_def get_or_create_absent allocate_new append_turn_keys del: set_map)
qed

section \<open>The session store: the bound on the history\<close>

text \<open>
  C7. Appending a turn to a history never leaves more than \<^verbatim>\<open>MAX_HISTORY\<close> turns,
  whatever the roles of the turns: user and assistant turns count one each. What
  remains is the end of the old history followed by the new turn, so the turns
  evicted are the oldest and the order is kept. Below the cap nothing is evicted;
  at the cap exactly the oldest turn goes. With the configured default of 10,
  eleven appends to an empty history leave the last ten turns. Appending to a
  session of the store does this to that session's history, and a store in which
  no history exceeds the cap stays so.
\<close>

theorem history_capped_fifo:
  "length (append_history cap h t) \<le> cap \<and>
   suffix (append_history cap h t) (h @ [t]) \<and>
   length (filter (\<lambda>x. turn_role x = User) (append_history cap h t)) +
     length (filter (\<lambda>x. turn_role x = Assistant) (append_history cap h t)) \<le> cap \<and>
   (length h < cap \<longrightarrow> append_history cap h t = h @ [t]) \<and>
   (length h = cap \<and> 0 < cap \<longrightarrow> append_history cap h t = tl h @ [t]) \<and>
   (length ts = Suc MAX_HISTORY \<longrightarrow>
      foldl (append_history MAX_HISTORY) [] ts = tl ts \<and>
      length (foldl (append_history MAX_HISTORY) [] ts) = MAX_HISTORY) \<and>
   MAX_HISTORY = 10 \<and>
   (i \<in> set (map fst store) \<longrightarrow>
      history (append_turn cap store i t) i = append_history cap (history store i) t) \<and>
   (list_all (\<lambda>kh. length (snd kh) \<le> cap) store \<longrightarrow>
      list_all (\<lambda>kh. length (snd kh) \<le> cap) (append_turn cap store i t))"
proof (intro conjI impI)
  show "list_all (\<lambda>kh. length (snd kh) \<le> cap) (append_turn cap store i t)"
    if "list_all (\<lambda>kh. length (snd kh) \<le> cap) store"
    using that by (rule append_turn_bounded)
  show "length (append_history cap h t) \<le> cap" by (rule length_append_history)
  show "suffix (append_history cap h t) (h @ [t])"
    unfolding append_history_eq by (rule suffix_drop)
  show "append_history cap h t = h @ [t]" if "length h < cap"
    using that by (simp add: append_history_eq)
  show "append_history cap h t = tl h @ [t]" if "length h = cap \<and> 0 < cap"
    using that by (cases h) (auto simp: append_history_eq)
  have "length (filter (\<lambda>x. turn_role x = User) xs) +
        length (filter (\<lambda>x. turn_role x = Assistant) xs) = length xs" for xs :: "Turn list"
    by (induction xs) (auto intro: Role.exhaust)
  then show "length (filter (\<lambda>x. turn_role x = User) (append_history cap h t)) +
     length (filter (\<lambda>x. turn_role x = Assistant) (append_history cap h t)) \<le> cap"
    by (simp add: length_append_history)
  show "foldl (append_history MAX_HISTORY) [] ts = tl ts" if "length ts = Suc MAX_HISTORY"
    using that by (simp add: foldl_append_history drop_Suc)
  then show "length (foldl (append_history MAX_HISTORY) [] ts) = MAX_HISTORY"
    if "length ts = Suc MAX_HISTORY"
    using that by simp
  show "MAX_HISTORY = 10" by (simp add: MAX_HISTORY_def)
  show "history (append_turn cap store i t) i = append_history cap (history store i) t"
    if "i \<in> set (map fst store)"
    using history_append_turn [OF that, of cap t i] by simp
qed

theorem history_capped_fifo_witness:
  "length [turn_a] < (2::nat) \<and> append_history 2 [turn_a] turn_b = [turn_a, turn_b] \<and>
   length [turn_a, turn_b] = (2::nat) \<and> (0::nat) < 2 \<and>
   append_history 2 [turn_a, turn_b] turn_a = [turn_b, turn_a] \<and>
   length (turn_b # replicate 10 turn_a) = Suc MAX_HISTORY \<and>
   foldl (append_history MAX_HISTORY) [] (turn_b # replicate 10 turn_a) = replicate 10 turn_a \<and>
   length (foldl (append_history MAX_HISTORY) [] (turn_b # replicate 10 turn_a)) = MAX_HISTORY \<and>
   lit ''s'' \<in> set (map fst store_s) \<and>
   history (append_turn 2 store_s (lit ''s'') turn_a) (lit ''s'') =
     append_history 2 (history store_s (lit ''s'')) turn_a \<and>
   list_all (\<lambda>kh. length (snd kh) \<le> 2) store_s \<and>
   list_all (\<lambda>kh. length (snd kh) \<le> 2) (append_turn 2 store_s (lit ''s'') turn_a)"
proof -
  have e: "list_all (\<lambda>kh. length (snd kh) \<le> 2) store_s" by (simp add: store_s_def)
  have a: "length [turn_a] < (2::nat)" by simp
  have b: "length [turn_a, turn_b] = (2::nat) \<and> (0::nat) < 2" by simp
  have c: "length (turn_b # replicate 10 turn_a) = Suc MAX_HISTORY" by (simp add: MAX_HISTORY_def)
  have d: "lit ''s'' \<in> set (map fst store_s)" by (simp add: store_s_def)
  from a b c d e
    history_capped_fifo [where cap = 2 and h = "[turn_a]" and t = turn_b]
    history_capped_fifo [where cap = 2 and h = "[turn_a, turn_b]" and t = turn_a
      and ts = "turn_b # replicate 10 turn_a" and i = "lit ''s''" and store = store_s]
  show ?thesis by simp
qed

section \<open>Client and backend: the session id\<close>

lemma exchange_first:
  assumes "sessionId st = None" "trim input \<noteq> []"
  shows "\<exists>store' st' req resp.
           exchange cap pipeline (store, st) (Send sa sb input topK Delivered) =
             (store', st', Some req) \<and>
           map_of (body req) ''session_id'' = Some JNull \<and>
           chat cap pipeline store (body req) = Some (store', resp) \<and>
           session_id resp \<noteq> [] \<and> session_id resp \<notin> set (map fst store) \<and>
           map fst store' = map fst store @ [session_id resp] \<and>
           sessionId st' = Some (session_id resp)"
proof -
  let ?j = "fresh_id (map fst store)"
  obtain stx req where start: "sendMessage_start (sessionId st) sa input topK st = (stx, Some req)"
    and b: "map_of (body req) ''session_id'' = Some JNull"
           "map_of (body req) ''message'' = Some (JString (trim input))"
    using assms(1) by (simp add: start_nonblank [OF assms(2)])
  from chat_absent [OF b(2) b(1), of cap pipeline store]
  obtain store' a srcs where
    c: "chat cap pipeline store (body req) =
          Some (store', \<lparr>session_id = ?j, answer = a, sources = srcs\<rparr>)"
    and k: "map fst store' = map fst store @ [?j]" by blast
  let ?out = "FetchResolves \<lparr>ok = True, status = 200,
                json = JsonResolves \<lparr>session_id = ?j, answer = a, sources = srcs\<rparr>\<rparr>"
  obtain st' where s: "sendMessage_settle sb ?out stx = Fulfilled st'" "sessionId st' = Some ?j"
    by (simp add: settle_success)
  have "exchange cap pipeline (store, st) (Send sa sb input topK Delivered) =
          (store', st', Some req)"
    using s(1) c by (simp add: exchange_def start deliver_def)
  with b(1) c k s(2) fresh_id_notin [of "map fst store"] fresh_id_nonempty [of "map fst store"]
  show ?thesis
    by (intro exI [of _ store'] exI [of _ st'] exI [of _ req]
        exI [of _ "\<lparr>session_id = ?j, answer = a, sources = srcs\<rparr>"]) simp
qed

lemma exchange_again:
  assumes "sessionId st = Some i" "i \<in> set (map fst store)" "trim input \<noteq> []"
  shows "\<exists>store' st' req resp.
           exchange cap pipeline (store, st) (Send sa sb input topK Delivered) =
             (store', st', Some req) \<and>
           map_of (body req) ''session_id'' = Some (JString i) \<and>
           chat cap pipeline store (body req) = Some (store', resp) \<and>
           session_id resp = i \<and>
           map fst store' = map fst store \<and>
           history store' i = append_history cap (append_history cap (history store i)
               \<lparr>turn_role = User, turn_content = trim input, turn_sources = None\<rparr>)
               \<lparr>turn_role = Assistant, turn_content = answer resp,
                turn_sources = Some (sources resp)\<rparr> \<and>
           sessionId st' = Some i"
proof -
  obtain stx req where start: "sendMessage_start (sessionId st) sa input topK st = (stx, Some req)"
    and b: "map_of (body req) ''session_id'' = Some (JString i)"
           "map_of (body req) ''message'' = Some (JString (trim input))"
    using assms(1) by (simp add: start_nonblank [OF assms(3)])
  from chat_known [OF b(2) b(1) assms(2), of cap pipeline]
  obtain store' a srcs where
    c: "chat cap pipeline store (body req) =
          Some (store', \<lparr>session_id = i, answer = a, sources = srcs\<rparr>)"
    and k: "map fst store' = map fst store"
    and h: "history store' i = append_history cap (append_history cap (history store i)
               \<lparr>turn_role = User, turn_content = trim input, turn_sources = None\<rparr>)
               \<lparr>turn_role = Assistant, turn_content = a, turn_sources = Some srcs\<rparr>" by blast
  let ?out = "FetchResolves \<lparr>ok = True, status = 200,
                json = JsonResolves \<lparr>session_id = i, answer = a, sources = srcs\<rparr>\<rparr>"
  obtain st' where s: "sendMessage_settle sb ?out stx = Fulfilled st'" "sessionId st' = Some i"
    by (simp add: settle_success)
  have "exchange cap pipeline (store, st) (Send sa sb input topK Delivered) =
          (store', st', Some req)"
    using s(1) c by (simp add: exchange_def start deliver_def)
  with b(1) c k h s(2) show ?thesis
    by (intro exI [of _ store'] exI [of _ st'] exI [of _ req]
        exI [of _ "\<lparr>session_id = i, answer = a, sources = srcs\<rparr>"]) simp
qed

lemma exchange_known:
  assumes "sessionId st = Some i" "i \<in> set (map fst store)"
  shows "\<exists>store' st' r. exchange cap pipeline (store, st) ev = (store', st', r) \<and>
           sessionId st' = Some i \<and> map fst store' = map fst store \<and>
           (\<forall>q. r = Some q \<longrightarrow> map_of (body q) ''session_id'' = Some (JString i))"
proof (cases ev)
  case (Send sa sb input topK d)
  show ?thesis
  proof (cases "trim input = []")
    case True
    with assms Send show ?thesis by (simp add: exchange_def start_blank)
  next
    case False
    obtain stx req where
      start: "sendMessage_start (sessionId st) sa input topK st = (stx, Some req)"
      and stx: "sessionId stx = Some i"
      and b: "map_of (body req) ''session_id'' = Some (JString i)"
             "map_of (body req) ''message'' = Some (JString (trim input))"
      using assms(1) by (simp add: start_nonblank [OF False])
    from chat_known [OF b(2) b(1) assms(2), of cap pipeline]
    obtain store' a srcs where
      c: "chat cap pipeline store (body req) =
            Some (store', \<lparr>session_id = i, answer = a, sources = srcs\<rparr>)"
      and k: "map fst store' = map fst store" by blast
    have fail: "\<exists>st'. sendMessage_settle sb out stx = Fulfilled st' \<and> sessionId st' = Some i"
      if "transport_fails out" for out
      using that stx by (simp add: settle_failure catch_block_sessionId)
    have succ: "\<exists>st'. sendMessage_settle sb (FetchResolves \<lparr>ok = True, status = 200,
        json = JsonResolves \<lparr>session_id = i, answer = a, sources = srcs\<rparr>\<rparr>) stx = Fulfilled st' \<and>
        sessionId st' = Some i"
      by (simp add: settle_success)
    show ?thesis
    proof (cases d)
      case Delivered
      with succ c k b(1) show ?thesis
        by (auto simp: exchange_def Send start deliver_def)
    next
      case (Lost e)
      with fail [of "FetchRejects e"] b(1) show ?thesis
        by (auto simp: exchange_def Send start deliver_def transport_fails_def)
    next
      case (Refused n)
      with fail [of "FetchResolves \<lparr>ok = False, status = n, json = JsonRejects NonError\<rparr>"] b(1)
      show ?thesis
        by (auto simp: exchange_def Send start deliver_def transport_fails_def)
    next
      case (Dropped e)
      with fail [of "FetchRejects e"] c k b(1) show ?thesis
        by (auto simp: exchange_def Send start deliver_def transport_fails_def)
    qed
  qed
qed

lemma run_known:
  "sessionId st = Some i \<Longrightarrow> i \<in> set (map fst store) \<Longrightarrow>
   \<exists>store' st' reqs. run cap pipeline (store, st) evs = ((store', st'), reqs) \<and>
     list_all (\<lambda>q. map_of (body q) ''session_id'' = Some (JString i)) reqs \<and>
     sessionId st' = Some i \<and> map fst store' = map fst store"
proof (induction evs arbitrary: store st)
  case Nil
  then show ?case by simp
next
  case (Cons ev evs)
  from exchange_known [OF Cons.prems, of cap pipeline ev]
  obtain store1 st1 r where
    e: "exchange cap pipeline (store, st) ev = (store1, st1, r)"
    and s: "sessionId st1 = Some i" and k: "map fst store1 = map fst store"
    and q: "\<forall>q. r = Some q \<longrightarrow> map_of (body q) ''session_id'' = Some (JString i)" by blast
  from k Cons.prems(2) have "i \<in> set (map fst store1)" by simp
  from Cons.IH [OF s this]
  obtain store' st' reqs where
    "run cap pipeline (store1, st1) evs = ((store', st'), reqs)"
    "list_all (\<lambda>q. map_of (body q) ''session_id'' = Some (JString i)) reqs"
    "sessionId st' = Some i" "map fst store' = map fst store1" by blast
  with e q k show ?case by (auto split: option.splits)
qed

lemma run_demo_length:
  "length (snd (run MAX_HISTORY stub_pipeline (store_s, in_session) events_demo)) = 3"
  by (simp add: events_demo_def exchange_def sendMessage_start_def Let_def truthy_def trim_def
      isWhiteSpace_def lit_def deliver_def chat_def get_or_create_def store_s_def in_session_def
      sendMessage_settle_def try_block_def catch_block_def finally_block_def stub_pipeline_def
      append_turn_def append_history_def history_def stamp1_def stamp2_def MAX_HISTORY_def)

text \<open>
  C1, as the claim has it, fails: not every request that follows the first one
  carries the id of the first response. \<^verbatim>\<open>sendMessage\<close> has no guard against a call
  while another is in flight, and it sends the \<^verbatim>\<open>sessionId\<close> its callback closed
  over. A second call made before the first response has arrived sends
  \<^verbatim>\<open>session_id\<close> \<^verbatim>\<open>null\<close> again, and the backend opens a second session for it; so
  does a call through a callback of a render before the id was stored.
\<close>

theorem overlapping_call_sends_null:
  "sendMessage_start None stamp1 (lit ''hi'') None initial = (started_hi, Some request_hi) \<and>
   sessionId started_hi = None \<and>
   snd (sendMessage_start (sessionId started_hi) stamp1 (lit ''yo'') None started_hi) =
     Some request_yo \<and>
   map_of (body request_yo) ''session_id'' = Some JNull \<and>
   chat MAX_HISTORY stub_pipeline [] (body request_hi) = Some (store_hi, stub_reply (lit ''s'')) \<and>
   chat MAX_HISTORY stub_pipeline store_hi (body request_yo) =
     Some (store_hi_yo, stub_reply (lit ''ss'')) \<and>
   map fst store_hi_yo = [lit ''s'', lit ''ss''] \<and>
   sessionId in_session = Some (lit ''s'') \<and>
   snd (sendMessage_start None stamp1 (lit ''yo'') None in_session) = Some request_yo"
  by (simp add: sendMessage_start_def Let_def truthy_def trim_def isWhiteSpace_def lit_def
      initial_def started_hi_def request_hi_def request_yo_def stamp1_def API_URL_def
      chat_def get_or_create_def allocate_def fresh_id_def history_def append_turn_def
      append_history_def stub_pipeline_def stub_reply_def store_hi_def store_hi_yo_def
      MAX_HISTORY_def in_session_def)

text \<open>
  C1, amended: for calls made one after the other, each through the callback of
  the current render and only when the call before has completed. A first request,
  sent by a hook that holds no session id, carries no id
  (\<^verbatim>\<open>session_id\<close> is \<^verbatim>\<open>null\<close>); the backend answers it with a new, non-empty id that
  no session had before, and the hook stores that id. From then on, through any
  sequence of such calls without a reset, whether they are delivered, fail or are
  blank, every request the hook sends
  carries exactly that id, the hook keeps it, and the backend creates no further
  session: a delivered request appends its user turn and its assistant turn to
  the history of that same session.
\<close>

theorem session_id_reused:
  "(sessionId st = None \<and> trim input \<noteq> [] \<longrightarrow>
      (\<exists>store' st' req resp.
         exchange cap pipeline (store, st) (Send sa sb input topK Delivered) =
           (store', st', Some req) \<and>
         map_of (body req) ''session_id'' = Some JNull \<and>
         chat cap pipeline store (body req) = Some (store', resp) \<and>
         session_id resp \<noteq> [] \<and> session_id resp \<notin> set (map fst store) \<and>
         map fst store' = map fst store @ [session_id resp] \<and>
         sessionId st' = Some (session_id resp))) \<and>
   (sessionId st = Some i \<and> i \<in> set (map fst store) \<longrightarrow>
      (\<exists>store' st' reqs. run cap pipeline (store, st) evs = ((store', st'), reqs) \<and>
         list_all (\<lambda>q. map_of (body q) ''session_id'' = Some (JString i)) reqs \<and>
         sessionId st' = Some i \<and> map fst store' = map fst store)) \<and>
   (sessionId st = Some i \<and> i \<in> set (map fst store) \<and> trim input \<noteq> [] \<longrightarrow>
      (\<exists>store' st' req resp.
         exchange cap pipeline (store, st) (Send sa sb input topK Delivered) =
           (store', st', Some req) \<and>
         map_of (body req) ''session_id'' = Some (JString i) \<and>
         chat cap pipeline store (body req) = Some (store', resp) \<and>
         session_id resp = i \<and>
         map fst store' = map fst store \<and>
         history store' i = append_history cap (append_history cap (history store i)
             \<lparr>turn_role = User, turn_content = trim input, turn_sources = None\<rparr>)
             \<lparr>turn_role = Assistant, turn_content = answer resp,
              turn_sources = Some (sources resp)\<rparr> \<and>
         sessionId st' = Some i))"
  using exchange_first [of st input cap pipeline store sa sb topK]
        run_known [of st i store cap pipeline evs]
        exchange_again [of st i store input cap pipeline sa sb topK]
  by blast

theorem session_id_reused_witness:
  "sessionId initial = None \<and> trim (lit ''hi'') \<noteq> [] \<and>
   (\<exists>store' st' req resp.
      exchange MAX_HISTORY stub_pipeline ([], initial)
          (Send stamp1 stamp2 (lit ''hi'') None Delivered) = (store', st', Some req) \<and>
      map_of (body req) ''session_id'' = Some JNull \<and>
      chat MAX_HISTORY stub_pipeline [] (body req) = Some (store', resp) \<and>
      session_id resp \<noteq> [] \<and> session_id resp \<notin> set (map fst ([] :: session_store)) \<and>
      map fst store' = map fst ([] :: session_store) @ [session_id resp] \<and>
      sessionId st' = Some (session_id resp)) \<and>
   sessionId in_session = Some (lit ''s'') \<and> lit ''s'' \<in> set (map fst store_s) \<and>
   (\<exists>store' st' reqs.
      run MAX_HISTORY stub_pipeline (store_s, in_session) events_demo = ((store', st'), reqs) \<and>
      list_all (\<lambda>q. map_of (body q) ''session_id'' = Some (JString (lit ''s''))) reqs \<and>
      sessionId st' = Some (lit ''s'') \<and> map fst store' = map fst store_s) \<and>
   length (snd (run MAX_HISTORY stub_pipeline (store_s, in_session) events_demo)) = 3 \<and>
   (\<exists>store' st' req resp.
      exchange MAX_HISTORY stub_pipeline (store_s, in_session)
          (Send stamp1 stamp2 (lit ''hi'') None Delivered) = (store', st', Some req) \<and>
      map_of (body req) ''session_id'' = Some (JString (lit ''s'')) \<and>
      chat MAX_HISTORY stub_pipeline store_s (body req) = Some (store', resp) \<and>
      session_id resp = lit ''s'' \<and>
      map fst store' = map fst store_s \<and>
      history store' (lit ''s'') =
        append_history MAX_HISTORY (append_history MAX_HISTORY (history store_s (lit ''s''))
          \<lparr>turn_role = User, turn_content = trim (lit ''hi''), turn_sources = None\<rparr>)
          \<lparr>turn_role = Assistant, turn_content = answer resp,
           turn_sources = Some (sources resp)\<rparr> \<and>
      sessionId st' = Some (lit ''s''))"
proof -
  have a: "sessionId initial = None" by (simp add: initial_def)
  have b: "trim (lit ''hi'') \<noteq> []" unfolding trim_hi by (simp add: lit_def)
  have c: "sessionId in_session = Some (lit ''s'')" by (simp add: in_session_def)
  have d: "lit ''s'' \<in> set (map fst store_s)" by (simp add: store_s_def)
  note first = session_id_reused [where st = initial and input = "lit ''hi''"
      and cap = MAX_HISTORY and pipeline = stub_pipeline and store = "[]" and sa = stamp1
      and sb = stamp2 and topK = None, THEN conjunct1, THEN mp, OF conjI [OF a b]]
  note later = session_id_reused [where st = in_session and cap = MAX_HISTORY
      and pipeline = stub_pipeline and store = store_s and i = "lit ''s''"
      and evs = events_demo, THEN conjunct2, THEN conjunct1, THEN mp, OF conjI [OF c d]]
  note again = session_id_reused [where st = in_session and input = "lit ''hi''"
      and cap = MAX_HISTORY and pipeline = stub_pipeline and store = store_s and sa = stamp1
      and sb = stamp2 and topK = None and i = "lit ''s''", THEN conjunct2, THEN conjunct2,
      THEN mp, OF conjI [OF c conjI [OF d b]]]
  show ?thesis
    by (intro conjI a b c d first later again run_demo_length)
qed

section \<open>The reset\<close>

text \<open>
  What \<^verbatim>\<open>clearChat\<close> leaves, and the request of a call made in the very state it
  leaves: the message list is empty, the session id and the error are \<^verbatim>\<open>null\<close>, the
  request carries \<^verbatim>\<open>session_id\<close> \<^verbatim>\<open>null\<close>, and the backend answers such a request
  with a new, non-empty id.
\<close>

lemma clearChat_state:
  "messages (clearChat st) = [] \<and> sessionId (clearChat st) = None \<and> error (clearChat st) = None \<and>
   isLoading (clearChat st) = isLoading st \<and>
   (trim input \<noteq> [] \<longrightarrow>
      (\<exists>st' req store' r.
         sendMessage_start (sessionId (clearChat st)) s input topK (clearChat st) = (st', Some req) \<and>
         map_of (body req) ''session_id'' = Some JNull \<and>
         chat cap pipeline store (body req) = Some (store', r) \<and>
         session_id r \<noteq> [] \<and> session_id r \<notin> set (map fst store) \<and>
         map fst store' = map fst store @ [session_id r]))"
proof (intro conjI impI)
  show "messages (clearChat st) = []" "sessionId (clearChat st) = None"
    "error (clearChat st) = None" "isLoading (clearChat st) = isLoading st"
    by (simp_all add: clearChat_def)
next
  assume t: "trim input \<noteq> []"
  have n: "sessionId (clearChat st) = None" by (simp add: clearChat_def)
  obtain st' req where
    start: "sendMessage_start (sessionId (clearChat st)) s input topK (clearChat st) = (st', Some req)"
    and b: "map_of (body req) ''session_id'' = Some JNull"
           "map_of (body req) ''message'' = Some (JString (trim input))"
    by (simp add: start_nonblank [OF t] n)
  from chat_absent [OF b(2) b(1), of cap pipeline store]
  obtain store' a srcs where
    "chat cap pipeline store (body req) =
       Some (store', \<lparr>session_id = fresh_id (map fst store), answer = a, sources = srcs\<rparr>)"
    "map fst store' = map fst store @ [fresh_id (map fst store)]" by blast
  with start b(1) fresh_id_notin [of "map fst store"] fresh_id_nonempty [of "map fst store"]
  show "\<exists>st' req store' r.
         sendMessage_start (sessionId (clearChat st)) s input topK (clearChat st) = (st', Some req) \<and>
         map_of (body req) ''session_id'' = Some JNull \<and>
         chat cap pipeline store (body req) = Some (store', r) \<and>
         session_id r \<noteq> [] \<and> session_id r \<notin> set (map fst store) \<and>
         map fst store' = map fst store @ [session_id r]"
    by (intro exI [of _ st'] exI [of _ req] exI [of _ store']
        exI [of _ "\<lparr>session_id = fresh_id (map fst store), answer = a, sources = srcs\<rparr>"]) simp
qed

text \<open>
  C8. The reset does not hold when a request is in flight. The button that calls
  \<^verbatim>\<open>clearChat\<close> is never disabled, and \<^verbatim>\<open>clearChat\<close> cancels nothing and leaves
  \<^verbatim>\<open>isLoading\<close> as it is. In the session \<^verbatim>\<open>s\<close>, with \<^verbatim>\<open>sendMessage("hi")\<close> in flight,
  \<^verbatim>\<open>clearChat\<close> empties the list and sets the session id to \<^verbatim>\<open>null\<close>; the response
  then arrives, line 45 stores its session id \<^verbatim>\<open>s\<close> again and line 55 appends its
  answer to the cleared list; the next call sends \<^verbatim>\<open>session_id\<close> \<^verbatim>\<open>s\<close>, and the
  backend appends to the old session instead of opening a fresh one.
\<close>

theorem late_response_restores_session:
  "sendMessage_start (sessionId in_session) stamp1 (lit ''hi'') None in_session =
     (pending_s, Some request_hi_s) \<and>
   clearChat pending_s = \<lparr>messages = [], isLoading = True, sessionId = None, error = None\<rparr> \<and>
   sendMessage_settle stamp2 (reachable request_hi_s) (clearChat pending_s) = Fulfilled restored_s \<and>
   sessionId restored_s = Some (lit ''s'') \<and>
   snd (sendMessage_start (sessionId restored_s) stamp1 (lit ''yo'') None restored_s) =
     Some request_yo_s \<and>
   map_of (body request_yo_s) ''session_id'' = Some (JString (lit ''s'')) \<and>
   chat MAX_HISTORY stub_pipeline store_s (body request_yo_s) =
     Some (store_s_yo, stub_reply (lit ''s'')) \<and>
   map fst store_s_yo = map fst store_s"
  by (simp add: sendMessage_start_def Let_def truthy_def trim_def isWhiteSpace_def lit_def
      in_session_def pending_s_def request_hi_s_def request_yo_s_def restored_s_def
      stamp1_def stamp2_def API_URL_def clearChat_def sendMessage_settle_def try_block_def
      finally_block_def reachable_def response_ok_def reply_def
      chat_def get_or_create_def history_def append_turn_def
      append_history_def stub_pipeline_def stub_reply_def store_s_def store_s_yo_def
      MAX_HISTORY_def)

end
